theory Spec2Isabelle
  imports Complex_Main "HOL-Library.Stream"
begin

section \<open>The bake scheduler of clouds.js\<close>

text \<open>
  The skybox is baked one tile per animation frame. The progress cursor is the global
  object \<open>skyboxRenderingStage\<close>; its components are JavaScript numbers that the program
  only ever sets to 0 or increments by one, so they are modelled as integers.
\<close>

definition SKYBOX_TILE_SIZE :: int where
  "SKYBOX_TILE_SIZE = 128"

definition MAX_LIGHTNING_STAGES :: int where
  "MAX_LIGHTNING_STAGES = 1"

definition MAX_Y_TILES :: int where
  "MAX_Y_TILES = 8"

definition MAX_X_TILES :: int where
  "MAX_X_TILES = 8"

record stage =
  newSkyboxRequested :: bool
  lightning :: int
  panel :: int
  y :: int
  x :: int

text \<open>The value the global is initialised with when the script is loaded.\<close>

definition skyboxRenderingStage :: stage where
  "skyboxRenderingStage =
     \<lparr>newSkyboxRequested = False, lightning = MAX_LIGHTNING_STAGES, panel = 6,
      y = MAX_Y_TILES, x = MAX_X_TILES\<rparr>"

definition requestNewSkybox :: "stage \<Rightarrow> stage" where
  "requestNewSkybox s = s\<lparr>newSkyboxRequested := True\<rparr>"

text \<open>The six panels of \<open>skyBoxModels\<close>, and the \<open>console.error\<close> lines of the scheduler.\<close>

datatype skyBoxModel = nzPlane | pxPlane | pzPlane | nxPlane | pyPlane | nyPlane

datatype console_error =
  XBelowZero int | YBelowZero int | PanelBelowZero int | LightningBelowZero int

text \<open>
  What one call of \<open>renderNewSkybox\<close> does besides updating the cursor: the errors it logs
  and the arguments \<open>(xIndex, yIndex, panel)\<close> of its call of \<open>renderPanelTexture\<close>, if it
  makes one.
\<close>

record frame_log =
  errors :: "console_error list"
  rendered :: "(int \<times> int \<times> skyBoxModel) option"

text \<open>The \<open>switch\<close> on the panel index; \<open>None\<close> is its \<open>default\<close> branch.\<close>

definition panelToRender :: "int \<Rightarrow> skyBoxModel option" where
  "panelToRender n =
     (if n = 0 then Some nzPlane
      else if n = 1 then Some pxPlane
      else if n = 2 then Some pzPlane
      else if n = 3 then Some nxPlane
      else if n = 4 then Some pyPlane
      else if n = 5 then Some nyPlane
      else None)"

text \<open>The first block of \<open>renderNewSkybox\<close>: a requested bake resets the cursor.\<close>

definition resetStages :: "stage \<Rightarrow> stage" where
  "resetStages s =
     (if newSkyboxRequested s
      then s\<lparr>lightning := 0, panel := 0, y := 0, x := 0, newSkyboxRequested := False\<rparr>
      else s)"

text \<open>The block under "Error checking": four tests in the order x, y, panel, lightning.\<close>

definition errorChecking :: "stage \<Rightarrow> stage \<times> console_error list" where
  "errorChecking s =
     (let (s1, e1) = (if x s < 0 then (s\<lparr>x := 0\<rparr>, [XBelowZero (x s)]) else (s, []));
          (s2, e2) = (if y s1 < 0 then (s1\<lparr>y := 0\<rparr>, [YBelowZero (y s1)]) else (s1, []));
          (s3, e3) = (if panel s2 < 0 then (s2\<lparr>panel := 0\<rparr>, [PanelBelowZero (panel s2)])
                      else (s2, []));
          (s4, e4) = (if lightning s3 < 0
                      then (s3\<lparr>lightning := 0\<rparr>, [LightningBelowZero (lightning s3)])
                      else (s3, []))
      in (s4, e1 @ e2 @ e3 @ e4))"

text \<open>The block under "Incrementing": the carries, each tested after the one before.\<close>

definition incrementing :: "stage \<Rightarrow> stage" where
  "incrementing s =
     (let s1 = (if x s \<ge> MAX_X_TILES then s\<lparr>y := y s + 1, x := 0\<rparr> else s);
          s2 = (if y s1 \<ge> MAX_Y_TILES then s1\<lparr>panel := panel s1 + 1, y := 0\<rparr> else s1);
          s3 = (if panel s2 \<ge> 6 then s2\<lparr>lightning := lightning s2 + 1, panel := 0\<rparr> else s2)
      in s3)"

definition renderNewSkybox :: "stage \<Rightarrow> stage \<times> frame_log" where
  "renderNewSkybox s0 =
     (let s1 = resetStages s0 in
      if lightning s1 \<ge> MAX_LIGHTNING_STAGES
      then (s1, \<lparr>errors = [], rendered = None\<rparr>)
      else
        let (s2, es) = errorChecking s1;
            s3 = incrementing s2
        in if lightning s3 \<ge> MAX_LIGHTNING_STAGES
           then (s3, \<lparr>errors = es, rendered = None\<rparr>)
           else (case panelToRender (panel s3) of
                   None \<Rightarrow> (s3, \<lparr>errors = es, rendered = None\<rparr>)
                 | Some m \<Rightarrow>
                     (s3\<lparr>x := x s3 + 1\<rparr>,
                      \<lparr>errors = es, rendered = Some (x s3, y s3, m)\<rparr>)))"

text \<open>
  \<open>renderPanelTexture\<close> sets the viewport to the tile: lower left corner, width and height
  in pixels of the 1024 by 1024 panel texture.
\<close>

definition renderPanelTexture :: "int \<Rightarrow> int \<Rightarrow> int \<times> int \<times> int \<times> int" where
  "renderPanelTexture xIndex yIndex =
     (xIndex * SKYBOX_TILE_SIZE, yIndex * SKYBOX_TILE_SIZE, SKYBOX_TILE_SIZE, SKYBOX_TILE_SIZE)"

text \<open>A pixel of the panel texture lies in a viewport.\<close>

definition inViewport :: "int \<times> int \<times> int \<times> int \<Rightarrow> int \<Rightarrow> int \<Rightarrow> bool" where
  "inViewport v px py =
     (case v of (left, bottom, w, h) \<Rightarrow>
        left \<le> px \<and> px < left + w \<and> bottom \<le> py \<and> py < bottom + h)"

text \<open>
  \<open>renderFrame\<close> calls \<open>renderNewSkybox\<close> once; \<open>frames n\<close> is n animation frames in a
  row, with the cursor they leave and the tiles they rendered, in order.
\<close>

fun frames :: "nat \<Rightarrow> stage \<Rightarrow> stage \<times> (int \<times> int \<times> skyBoxModel) list" where
  "frames 0 s = (s, [])"
| "frames (Suc n) s =
     (let (s1, l) = renderNewSkybox s;
          (s2, rs) = frames n s1
      in (s2, (case rendered l of None \<Rightarrow> [] | Some r \<Rightarrow> [r]) @ rs))"

text \<open>
  The states the program can be in: the initial one, and any state after a call of
  \<open>requestNewSkybox\<close> (an input handler, or the animation loop's second request) or of
  \<open>renderNewSkybox\<close> (a frame).
\<close>

inductive reachable :: "stage \<Rightarrow> bool" where
  initial: "reachable skyboxRenderingStage"
| request: "reachable s \<Longrightarrow> reachable (requestNewSkybox s)"
| frame: "reachable s \<Longrightarrow> reachable (fst (renderNewSkybox s))"

subsection \<open>Auxiliary notions for the proofs about the scheduler\<close>

text \<open>All four cursor components are non-negative.\<close>

definition cursor_ok :: "stage \<Rightarrow> bool" where
  "cursor_ok s = (0 \<le> lightning s \<and> 0 \<le> panel s \<and> 0 \<le> y s \<and> 0 \<le> x s)"

text \<open>
  The n-th tile of a bake in rendering order (x fastest, then y, then the panel), the
  states in the middle of a bake, and the number of tiles such a state has behind it.
\<close>

fun faceOf :: "nat \<Rightarrow> skyBoxModel" where
  "faceOf n = (if n = 0 then nzPlane else if n = 1 then pxPlane else if n = 2 then pzPlane
     else if n = 3 then nxPlane else if n = 4 then pyPlane else nyPlane)"

definition tile :: "nat \<Rightarrow> int \<times> int \<times> skyBoxModel" where
  "tile n = (int (n mod 8), int (n div 8 mod 8), faceOf (n div 64))"

definition mid :: "stage \<Rightarrow> bool" where
  "mid s = (\<not> newSkyboxRequested s \<and> lightning s = 0 \<and> 0 \<le> panel s \<and> panel s < 6 \<and>
            0 \<le> y s \<and> y s < 8 \<and> 0 \<le> x s \<and> x s \<le> 8)"

definition idx :: "stage \<Rightarrow> nat" where
  "idx s = nat (panel s * 64 + y s * 8 + x s)"

text \<open>The cursor a requested bake starts from.\<close>

definition bakeStart :: stage where
  "bakeStart = \<lparr>newSkyboxRequested = False, lightning = 0, panel = 0, y = 0, x = 0\<rparr>"


section \<open>Colours from hexadecimal strings\<close>

text \<open>
  \<open>hex.charAt(i)\<close> is the string of the one character at index i, and the empty string
  when i is not an index of \<open>hex\<close>.
\<close>

definition charAt :: "string \<Rightarrow> nat \<Rightarrow> string" where
  "charAt hex i = (if i < length hex then [hex ! i] else [])"

text \<open>
  The \<open>switch\<close> of \<open>hexToColor\<close>: what is added to \<open>value\<close> for a character. The cases
  are the sixteen lower-case hexadecimal digits; \<open>default\<close> adds 0.
\<close>

definition digitValue :: "string \<Rightarrow> real" where
  "digitValue c =
     (if c = ''0'' then 0
      else if c = ''1'' then 1
      else if c = ''2'' then 2
      else if c = ''3'' then 3
      else if c = ''4'' then 4
      else if c = ''5'' then 5
      else if c = ''6'' then 6
      else if c = ''7'' then 7
      else if c = ''8'' then 8
      else if c = ''9'' then 9
      else if c = ''a'' then 10
      else if c = ''b'' then 11
      else if c = ''c'' then 12
      else if c = ''d'' then 13
      else if c = ''e'' then 14
      else if c = ''f'' then 15
      else 0)"

text \<open>The inner loop reads two characters; it returns the new \<open>charIndex\<close> and \<open>value\<close>.\<close>

function hexPair :: "string \<Rightarrow> nat \<Rightarrow> nat \<Rightarrow> real \<Rightarrow> nat \<times> real" where
  "hexPair hex i charIndex val =
     (if i < 2
      then hexPair hex (i + 1) (charIndex + 1) (val * 16 + digitValue (charAt hex charIndex))
      else (charIndex, val))"
  by pat_completeness auto
termination
  by (relation "measure (\<lambda>(hex, i, charIndex, val). 2 - i)") auto

text \<open>
  The outer loop over the three components. \<open>colorVec\<close> is a typed array of three floats:
  a store at an index it does not have is ignored, as \<open>list_update\<close> does.
\<close>

function hexComponents :: "string \<Rightarrow> nat \<Rightarrow> nat \<Rightarrow> real list \<Rightarrow> real list" where
  "hexComponents hex rgbIndex charIndex colorVec =
     (if rgbIndex < 3
      then let (charIndex1, v0) = hexPair hex 0 charIndex 0;
               v1 = (if v0 < 0 then 0 else v0);
               v2 = (if v1 > 256 then 256 else v1);
               v3 = v2 / 256
           in hexComponents hex (rgbIndex + 1) charIndex1 (colorVec[rgbIndex := v3])
      else colorVec)"
  by pat_completeness auto
termination
  by (relation "measure (\<lambda>(hex, rgbIndex, charIndex, colorVec). 3 - rgbIndex)") auto

definition hexToColor :: "string \<Rightarrow> real list \<Rightarrow> real list" where
  "hexToColor hex colorVec = hexComponents hex 0 1 colorVec"

declare hexPair.simps [simp del] hexComponents.simps [simp del]

text \<open>For the proofs: the component read from the two characters at c and c + 1.\<close>

definition hexByte :: "string \<Rightarrow> nat \<Rightarrow> real" where
  "hexByte hex c = (digitValue (charAt hex c) * 16 + digitValue (charAt hex (c + 1))) / 256"


section \<open>The noise base texture\<close>

definition noiseBaseDimension :: nat where
  "noiseBaseDimension = 16"

definition noiseBaseRowLength :: nat where
  "noiseBaseRowLength = 4"

definition textureDimension :: nat where
  "textureDimension = 64"

text \<open>
  \<open>Math.random()\<close> is modelled by the stream of the numbers its successive calls return:
  a call takes the head and leaves the tail.
\<close>

type_synonym random = "real stream"

text \<open>
  A JavaScript array with holes: \<open>new Array(n)\<close> has n empty slots, and a store at an
  index beyond the end extends the array.
\<close>

definition newArray :: "nat \<Rightarrow> int option list" where
  "newArray n = replicate n None"

definition store :: "int option list \<Rightarrow> nat \<Rightarrow> int \<Rightarrow> int option list" where
  "store a i v =
     (if i < length a then a[i := Some v]
      else a @ replicate (i - length a) None @ [Some v])"

text \<open>The body of the loop of \<open>loadNewNoise\<close>: four stores, three of them random.\<close>

definition writeTexel :: "nat \<Rightarrow> random \<Rightarrow> int option list \<Rightarrow> int option list \<times> random" where
  "writeTexel i rnd textureData =
     (let d0 = store textureData i \<lfloor>shd rnd * 256\<rfloor>;
          rnd1 = stl rnd;
          d1 = store d0 (i + 1) \<lfloor>shd rnd1 * 256\<rfloor>;
          rnd2 = stl rnd1;
          d2 = store d1 (i + 2) \<lfloor>shd rnd2 * 256\<rfloor>;
          rnd3 = stl rnd2;
          d3 = store d2 (i + 3) 255
      in (d3, rnd3))"

function noiseLoop :: "nat \<Rightarrow> nat \<Rightarrow> random \<Rightarrow> int option list \<Rightarrow> int option list \<times> random" where
  "noiseLoop i n rnd textureData =
     (if i < n
      then let (d, rnd1) = writeTexel i rnd textureData in noiseLoop (i + 4) n rnd1 d
      else (textureData, rnd))"
  by pat_completeness auto
termination
  by (relation "measure (\<lambda>(i, n, rnd, textureData). n - i)") auto

declare noiseLoop.simps [simp del]

text \<open>
  \<open>new Uint8Array(textureData)\<close> converts each element to a byte: a number modulo 256, an
  empty slot (\<open>undefined\<close>) to 0.
\<close>

fun toUint8 :: "int option \<Rightarrow> int" where
  "toUint8 None = 0"
| "toUint8 (Some v) = v mod 256"

text \<open>
  The image of the texture \<open>noiseBase\<close>: \<open>texImage2D\<close> replaces it, with its size, by the
  array it is given. \<open>loadNewNoise\<close> takes the image the texture had and the random
  source, and returns the new image and the rest of the random source.
\<close>

record image =
  width :: nat
  height :: nat
  pixels :: "int list"

definition loadNewNoise :: "image \<Rightarrow> random \<Rightarrow> image \<times> random" where
  "loadNewNoise noiseBase rnd =
     (let (textureData, rnd1) =
            noiseLoop 0 (textureDimension * textureDimension * 4) rnd
              (newArray (textureDimension * textureDimension * 4))
      in (\<lparr>width = textureDimension, height = textureDimension,
           pixels = map toUint8 textureData\<rparr>, rnd1))"

section \<open>The fragment shader of the cloud renderer\<close>

text \<open>
  The shader runs on the GPU in single precision. It is modelled over the real numbers:
  rounding, infinities and NaN are not represented, and a division by zero, which the
  shader cannot recover from either, has the value 0 that division by zero has in HOL.
  Vectors are tuples; the GLSL built-in functions used by the shader are defined first.
\<close>

type_synonym vec2 = "real \<times> real"
type_synonym vec3 = "real \<times> real \<times> real"
type_synonym vec4 = "real \<times> real \<times> real \<times> real"

fun vadd :: "vec3 \<Rightarrow> vec3 \<Rightarrow> vec3" where
  "vadd (a1, a2, a3) (b1, b2, b3) = (a1 + b1, a2 + b2, a3 + b3)"

fun vsub :: "vec3 \<Rightarrow> vec3 \<Rightarrow> vec3" where
  "vsub (a1, a2, a3) (b1, b2, b3) = (a1 - b1, a2 - b2, a3 - b3)"

fun vmul :: "vec3 \<Rightarrow> vec3 \<Rightarrow> vec3" where
  "vmul (a1, a2, a3) (b1, b2, b3) = (a1 * b1, a2 * b2, a3 * b3)"

fun vscale :: "vec3 \<Rightarrow> real \<Rightarrow> vec3" where
  "vscale (a1, a2, a3) k = (a1 * k, a2 * k, a3 * k)"

fun dot :: "vec3 \<Rightarrow> vec3 \<Rightarrow> real" where
  "dot (a1, a2, a3) (b1, b2, b3) = a1 * b1 + a2 * b2 + a3 * b3"

fun vlength :: "vec3 \<Rightarrow> real" where
  "vlength (a1, a2, a3) = sqrt (a1 * a1 + a2 * a2 + a3 * a3)"

fun vdivs :: "vec3 \<Rightarrow> real \<Rightarrow> vec3" where
  "vdivs (a1, a2, a3) k = (a1 / k, a2 / k, a3 / k)"

definition normalize :: "vec3 \<Rightarrow> vec3" where
  "normalize v = vdivs v (vlength v)"

definition gfloor :: "real \<Rightarrow> real" where
  "gfloor a = of_int \<lfloor>a\<rfloor>"

definition fract :: "real \<Rightarrow> real" where
  "fract a = a - gfloor a"

fun vfloor :: "vec3 \<Rightarrow> vec3" where
  "vfloor (a1, a2, a3) = (gfloor a1, gfloor a2, gfloor a3)"

fun vfract :: "vec3 \<Rightarrow> vec3" where
  "vfract (a1, a2, a3) = (fract a1, fract a2, fract a3)"

definition mix :: "real \<Rightarrow> real \<Rightarrow> real \<Rightarrow> real" where
  "mix a b k = a * (1 - k) + b * k"

fun vmix :: "vec3 \<Rightarrow> vec3 \<Rightarrow> real \<Rightarrow> vec3" where
  "vmix (a1, a2, a3) (b1, b2, b3) k = (mix a1 b1 k, mix a2 b2 k, mix a3 b3 k)"

definition clamp :: "real \<Rightarrow> real \<Rightarrow> real \<Rightarrow> real" where
  "clamp a lo hi = min (max a lo) hi"

fun xyz :: "vec4 \<Rightarrow> vec3" where
  "xyz (a1, a2, a3, a4) = (a1, a2, a3)"

fun vw :: "vec4 \<Rightarrow> real" where
  "vw (a1, a2, a3, a4) = a4"

text \<open>
  The uniforms of the shader, over the type of the shader's numbers. \<open>u_sampler\<close> is the
  noise texture as \<open>texture2D\<close> reads it: from texture coordinates to a colour.
\<close>

record 'f shader_uniforms =
  u_sampler :: "'f \<times> 'f \<Rightarrow> 'f \<times> 'f \<times> 'f \<times> 'f"
  u_dimension :: 'f
  u_rowLength :: 'f
  u_noise1InputSettings :: "'f \<times> 'f \<times> 'f \<times> 'f"
  u_noise1OutputSettings :: "'f \<times> 'f"
  u_noise2InputSettings :: "'f \<times> 'f \<times> 'f \<times> 'f"
  u_noise2OutputSettings :: "'f \<times> 'f"
  u_noise3InputSettings :: "'f \<times> 'f \<times> 'f \<times> 'f"
  u_noise3OutputSettings :: "'f \<times> 'f"
  u_noise4InputSettings :: "'f \<times> 'f \<times> 'f \<times> 'f"
  u_noise4OutputSettings :: "'f \<times> 'f"
  u_noise5InputSettings :: "'f \<times> 'f \<times> 'f \<times> 'f"
  u_noise5OutputSettings :: "'f \<times> 'f"
  u_stepSettings :: "'f \<times> 'f \<times> 'f \<times> 'f"
  u_skyColor :: "'f \<times> 'f \<times> 'f"
  u_darkColor :: "'f \<times> 'f \<times> 'f"
  u_lightColor :: "'f \<times> 'f \<times> 'f"
  u_sunDir :: "'f \<times> 'f \<times> 'f"
  u_sunStepSettings :: "'f \<times> 'f"
  u_lightAbsorption :: 'f
  u_fog :: 'f

type_synonym uniforms = "real shader_uniforms"

fun vol3D :: "(vec2 \<Rightarrow> vec4) \<Rightarrow> vec3 \<Rightarrow> real \<Rightarrow> real \<Rightarrow> vec4" where
  "vol3D sampler (c1, c2, c3) tileDimension rowLength =
     (let tileIndex = gfloor (c3 * tileDimension) / rowLength;
          tileCoord1 = fract tileIndex * rowLength;
          tileCoord2 = gfloor tileIndex
      in sampler ((tileCoord1 + c1) / rowLength, (tileCoord2 + c2) / rowLength))"

text \<open>A lattice index that has reached \<open>u_dimension\<close> wraps around.\<close>

definition wrapIndex :: "real \<Rightarrow> real \<Rightarrow> real" where
  "wrapIndex d a = (if a \<ge> d then a - d else a)"

definition smooth5 :: "real \<Rightarrow> real" where
  "smooth5 f = f * f * f * (f * (f * 6 - 15) + 10)"

text \<open>The gradient at a lattice corner, and its dot product with the offset from it.\<close>

definition corner :: "uniforms \<Rightarrow> vec3 \<Rightarrow> vec3 \<Rightarrow> vec3 \<Rightarrow> real" where
  "corner U i stu_f offs =
     (let f = xyz (vol3D (u_sampler U) (vdivs i (u_dimension U)) (u_dimension U)
                     (u_rowLength U));
          c = normalize (vsub (vscale f 2) (1, 1, 1))
      in dot c (vsub stu_f offs))"

definition noise3D :: "uniforms \<Rightarrow> vec3 \<Rightarrow> real" where
  "noise3D U stu0 =
     (let stu = vscale stu0 (u_dimension U);
          stu_i = vfloor stu;
          stu_f = vfract stu;
          d = u_dimension U
      in case (stu_i, stu_f) of ((i1, i2, i3), (f1, f2, f3)) \<Rightarrow>
        let s1 = smooth5 f1; s2 = smooth5 f2; s3 = smooth5 f3;
            j1 = wrapIndex d (i1 + 1); j2 = wrapIndex d (i2 + 1); j3 = wrapIndex d (i3 + 1);
            d000 = corner U (i1, i2, i3) stu_f (0, 0, 0);
            d100 = corner U (j1, i2, i3) stu_f (1, 0, 0);
            d010 = corner U (i1, j2, i3) stu_f (0, 1, 0);
            d110 = corner U (j1, j2, i3) stu_f (1, 1, 0);
            d001 = corner U (i1, i2, j3) stu_f (0, 0, 1);
            d101 = corner U (j1, i2, j3) stu_f (1, 0, 1);
            d011 = corner U (i1, j2, j3) stu_f (0, 1, 1);
            d111 = corner U (j1, j2, j3) stu_f (1, 1, 1)
        in mix (mix (mix d000 d100 s1) (mix d010 d110 s1) s2)
               (mix (mix d001 d101 s1) (mix d011 d111 s1) s2) s3)"

fun wrapVolumeCoords :: "vec3 \<Rightarrow> vec3" where
  "wrapVolumeCoords (c1, c2, c3) =
     (let f1 = fract c1; f2 = fract c2; f3 = fract c3
      in (if f1 < 0 then f1 + 1 else f1, if f2 < 0 then f2 + 1 else f2,
          if f3 < 0 then f3 + 1 else f3))"

definition sampleDensity :: "uniforms \<Rightarrow> vec3 \<Rightarrow> real \<Rightarrow> vec3 \<Rightarrow> real \<Rightarrow> real \<Rightarrow> real" where
  "sampleDensity U stu scale translation slope offset =
     clamp (noise3D U (wrapVolumeCoords (vadd (vscale stu scale) translation)) * slope + offset)
       0 1"

definition sampleLayeredDensity :: "uniforms \<Rightarrow> vec3 \<Rightarrow> real" where
  "sampleLayeredDensity U stu =
     (let density1 = sampleDensity U stu (vw (u_noise1InputSettings U))
            (xyz (u_noise1InputSettings U)) (fst (u_noise1OutputSettings U))
            (snd (u_noise1OutputSettings U));
          density2 = density1 + sampleDensity U stu (vw (u_noise2InputSettings U))
            (xyz (u_noise2InputSettings U)) (fst (u_noise2OutputSettings U))
            (snd (u_noise2OutputSettings U));
          density3 = density2 + sampleDensity U stu (vw (u_noise3InputSettings U))
            (xyz (u_noise3InputSettings U)) (fst (u_noise3OutputSettings U))
            (snd (u_noise3OutputSettings U));
          density4 = density3 + sampleDensity U stu (vw (u_noise4InputSettings U))
            (xyz (u_noise4InputSettings U)) (fst (u_noise4OutputSettings U))
            (snd (u_noise4OutputSettings U));
          density5 = density4 + sampleDensity U stu (vw (u_noise5InputSettings U))
            (xyz (u_noise5InputSettings U)) (fst (u_noise5OutputSettings U))
            (snd (u_noise5OutputSettings U))
      in clamp density5 0 1)"

subsection \<open>The ray march\<close>

text \<open>
  The three distances \<open>raymarching\<close> computes before its loop: \<open>densityFalloffStart\<close>,
  \<open>densityFalloffEnd\<close> and \<open>densityFalloffSize\<close>.
\<close>

definition densityFalloffStart :: "uniforms \<Rightarrow> vec3 \<Rightarrow> vec3 \<Rightarrow> real" where
  "densityFalloffStart U ro rd =
     (case u_stepSettings U of (tmin, tdensityFalloff, tmax, stepSize) \<Rightarrow>
        vlength (vadd ro (vscale rd tdensityFalloff)))"

definition densityFalloffEnd :: "uniforms \<Rightarrow> vec3 \<Rightarrow> vec3 \<Rightarrow> real" where
  "densityFalloffEnd U ro rd =
     (case u_stepSettings U of (tmin, tdensityFalloff, tmax, stepSize) \<Rightarrow>
        vlength (vadd ro (vscale rd tmin)))"

definition densityFalloffSize :: "uniforms \<Rightarrow> vec3 \<Rightarrow> vec3 \<Rightarrow> real" where
  "densityFalloffSize U ro rd = densityFalloffStart U ro rd - densityFalloffEnd U ro rd"

text \<open>
  The density at a position, as both loops compute it: the layered density, scaled down
  when the position is within the falloff area.
\<close>

definition falloffDensity :: "uniforms \<Rightarrow> vec3 \<Rightarrow> vec3 \<Rightarrow> vec3 \<Rightarrow> real" where
  "falloffDensity U ro rd pos =
     (let sampleDistance = vlength pos;
          density = sampleLayeredDensity U pos
      in if sampleDistance < densityFalloffStart U ro rd
         then mix 0 density
                ((sampleDistance - densityFalloffEnd U ro rd) / densityFalloffSize U ro rd)
         else density)"

text \<open>
  The loop towards the sun, at most 50 rounds. The result is \<open>densityToSun\<close> and the number
  of rounds made.
\<close>

function sunLoop ::
  "uniforms \<Rightarrow> vec3 \<Rightarrow> vec3 \<Rightarrow> vec3 \<Rightarrow> vec3 \<Rightarrow> nat \<Rightarrow> real \<Rightarrow> real \<Rightarrow> real \<times> nat" where
  "sunLoop U ro rd sunDir currentPos j tsun densityToSun =
     (if j < 50
      then
        let newPos = vadd currentPos (vscale (vscale sunDir (- 1)) tsun);
            sampleDistance = vlength newPos;
            densityToSun1 =
              (if sampleDistance \<ge> densityFalloffEnd U ro rd
               then clamp (densityToSun + falloffDensity U ro rd newPos) 0 1
               else densityToSun);
            tsun1 = tsun + snd (u_sunStepSettings U)
        in if densityToSun1 \<ge> 1 then (1, j + 1)
           else if tsun1 > fst (u_sunStepSettings U) then (densityToSun1, j + 1)
           else sunLoop U ro rd sunDir currentPos (j + 1) tsun1 densityToSun1
      else (densityToSun, j))"
  by pat_completeness auto
termination
  by (relation "measure (\<lambda>(U, ro, rd, sunDir, currentPos, j, tsun, densityToSun). 50 - j)")
    auto

text \<open>
  The block for a sample inside a cloud: the colour of the point, lit through the density
  towards the sun and fogged, is added to \<open>cloudColor\<close> in proportion to what the
  accumulated alpha leaves. The statement \<open>clamp(cloudColor, 0.0, 1.0);\<close> after it
  discards its result and so does nothing.
\<close>

definition composite ::
  "uniforms \<Rightarrow> vec3 \<Rightarrow> vec3 \<Rightarrow> vec3 \<Rightarrow> vec3 \<Rightarrow> vec3 \<Rightarrow> real \<Rightarrow> real \<Rightarrow> vec4 \<Rightarrow> vec4" where
  "composite U ro rd sunDir skyColor currentPos t density cloudColor =
     (let densityToSun = fst (sunLoop U ro rd sunDir currentPos 0 0 density);
          brightness = exp (- 1 * u_lightAbsorption U * densityToSun);
          rgb0 = vmix (u_darkColor U) (u_lightColor U) brightness;
          rgb1 = vmix skyColor rgb0 (exp (- 1 * u_fog U * t));
          rgb2 = vscale rgb1 density;
          k = 1 - vw cloudColor
      in case (cloudColor, vscale rgb2 k) of
           ((c1, c2, c3, c4), (p1, p2, p3)) \<Rightarrow> (c1 + p1, c2 + p2, c3 + p3, c4 + density * k))"

text \<open>
  The primary loop, at most 200 rounds. The result is \<open>cloudColor\<close> and the number of
  rounds made.
\<close>

function marchLoop ::
  "uniforms \<Rightarrow> vec3 \<Rightarrow> vec3 \<Rightarrow> vec3 \<Rightarrow> vec3 \<Rightarrow> nat \<Rightarrow> real \<Rightarrow> vec4 \<Rightarrow> vec4 \<times> nat" where
  "marchLoop U ro rd sunDir skyColor i t cloudColor =
     (if i < 200
      then
        let currentPos = vadd ro (vscale rd t);
            density = falloffDensity U ro rd currentPos;
            cloudColor1 =
              (if density > 0.01
               then composite U ro rd sunDir skyColor currentPos t density cloudColor
               else cloudColor);
            t1 = t + vw (u_stepSettings U)
        in if vw cloudColor1 \<ge> 1
           then (case cloudColor1 of (c1, c2, c3, c4) \<Rightarrow> ((c1, c2, c3, 1), i + 1))
           else if t1 > (case u_stepSettings U of (tmin, tdensityFalloff, tmax, stepSize) \<Rightarrow> tmax)
           then (cloudColor1, i + 1)
           else marchLoop U ro rd sunDir skyColor (i + 1) t1 cloudColor1
      else (cloudColor, i))"
  by pat_completeness auto
termination
  by (relation "measure (\<lambda>(U, ro, rd, sunDir, skyColor, i, t, cloudColor). 200 - i)") auto

declare sunLoop.simps [simp del] marchLoop.simps [simp del]

text \<open>\<open>raymarching\<close> with the number of rounds of its loop, and \<open>raymarching\<close> itself.\<close>

definition raymarchingRounds :: "uniforms \<Rightarrow> vec3 \<Rightarrow> vec3 \<Rightarrow> vec3 \<Rightarrow> vec3 \<Rightarrow> vec4 \<times> nat" where
  "raymarchingRounds U ro rd sunDir skyColor =
     (case u_stepSettings U of (tmin, tdensityFalloff, tmax, stepSize) \<Rightarrow>
        marchLoop U ro rd sunDir skyColor 0 tmin (0, 0, 0, 0))"



text \<open>
  A configuration to evaluate the shader's functions at: the first noise layer has slope
  0 and offset 1/2 and the other four slope 0 and offset 0, so that the layered density
  is 1/2 at every point; the march goes from 1 to 10 in steps of 1/10 with the falloff
  distance at 2.
\<close>

definition sampleUniforms :: uniforms where
  "sampleUniforms =
     \<lparr>u_sampler = (\<lambda>c. (1, 0, 0, 1)), u_dimension = 16, u_rowLength = 4,
      u_noise1InputSettings = (0, 0, 0, 1), u_noise1OutputSettings = (0, 1 / 2),
      u_noise2InputSettings = (0, 0, 0, 2), u_noise2OutputSettings = (0, 0),
      u_noise3InputSettings = (0, 0, 0, 4), u_noise3OutputSettings = (0, 0),
      u_noise4InputSettings = (0, 0, 0, 8), u_noise4OutputSettings = (0, 0),
      u_noise5InputSettings = (0, 0, 0, 16), u_noise5OutputSettings = (0, 0),
      u_stepSettings = (1, 2, 10, 1 / 10),
      u_skyColor = (0, 0, 1), u_darkColor = (0, 0, 0), u_lightColor = (1, 1, 1),
      u_sunDir = (0, - 1, 0), u_sunStepSettings = (1, 1 / 10),
      u_lightAbsorption = 1, u_fog = 0\<rparr>"

section \<open>The shader over any arithmetic\<close>

text \<open>
  The GPU computes with floating point numbers: results are rounded, and a number can be
  an infinity or NaN, on which comparisons are false. So that what is proved about the
  control flow of \<open>raymarching\<close> holds for the numbers the GPU has, the shader is given a
  second time over an arbitrary type of numbers. What the literals, the operators, the
  comparisons and the built-in functions of the shading language compute is a
  parameter: any functions at all.
\<close>

record 'f glsl =
  f_lit :: "real \<Rightarrow> 'f"
  f_add :: "'f \<Rightarrow> 'f \<Rightarrow> 'f"
  f_sub :: "'f \<Rightarrow> 'f \<Rightarrow> 'f"
  f_mul :: "'f \<Rightarrow> 'f \<Rightarrow> 'f"
  f_div :: "'f \<Rightarrow> 'f \<Rightarrow> 'f"
  f_lt :: "'f \<Rightarrow> 'f \<Rightarrow> bool"
  f_gt :: "'f \<Rightarrow> 'f \<Rightarrow> bool"
  f_ge :: "'f \<Rightarrow> 'f \<Rightarrow> bool"
  f_floor :: "'f \<Rightarrow> 'f"
  f_fract :: "'f \<Rightarrow> 'f"
  f_exp :: "'f \<Rightarrow> 'f"
  f_mix :: "'f \<Rightarrow> 'f \<Rightarrow> 'f \<Rightarrow> 'f"
  f_clamp :: "'f \<Rightarrow> 'f \<Rightarrow> 'f \<Rightarrow> 'f"
  f_length :: "'f \<times> 'f \<times> 'f \<Rightarrow> 'f"
  f_dot :: "'f \<times> 'f \<times> 'f \<Rightarrow> 'f \<times> 'f \<times> 'f \<Rightarrow> 'f"
  f_normalize :: "'f \<times> 'f \<times> 'f \<Rightarrow> 'f \<times> 'f \<times> 'f"

text \<open>The operators on vectors work component by component.\<close>

fun vadd_ops :: "'f glsl \<Rightarrow> 'f \<times> 'f \<times> 'f \<Rightarrow> 'f \<times> 'f \<times> 'f \<Rightarrow> 'f \<times> 'f \<times> 'f" where
  "vadd_ops G (a1, a2, a3) (b1, b2, b3) = (f_add G a1 b1, f_add G a2 b2, f_add G a3 b3)"

fun vsub_ops :: "'f glsl \<Rightarrow> 'f \<times> 'f \<times> 'f \<Rightarrow> 'f \<times> 'f \<times> 'f \<Rightarrow> 'f \<times> 'f \<times> 'f" where
  "vsub_ops G (a1, a2, a3) (b1, b2, b3) = (f_sub G a1 b1, f_sub G a2 b2, f_sub G a3 b3)"

text \<open>A vector times a number, a number times a vector, a vector over or minus a number.\<close>

fun vscale_ops :: "'f glsl \<Rightarrow> 'f \<times> 'f \<times> 'f \<Rightarrow> 'f \<Rightarrow> 'f \<times> 'f \<times> 'f" where
  "vscale_ops G (a1, a2, a3) k = (f_mul G a1 k, f_mul G a2 k, f_mul G a3 k)"

fun sscale_ops :: "'f glsl \<Rightarrow> 'f \<Rightarrow> 'f \<times> 'f \<times> 'f \<Rightarrow> 'f \<times> 'f \<times> 'f" where
  "sscale_ops G k (a1, a2, a3) = (f_mul G k a1, f_mul G k a2, f_mul G k a3)"

fun vdivs_ops :: "'f glsl \<Rightarrow> 'f \<times> 'f \<times> 'f \<Rightarrow> 'f \<Rightarrow> 'f \<times> 'f \<times> 'f" where
  "vdivs_ops G (a1, a2, a3) k = (f_div G a1 k, f_div G a2 k, f_div G a3 k)"

fun vsubs_ops :: "'f glsl \<Rightarrow> 'f \<times> 'f \<times> 'f \<Rightarrow> 'f \<Rightarrow> 'f \<times> 'f \<times> 'f" where
  "vsubs_ops G (a1, a2, a3) k = (f_sub G a1 k, f_sub G a2 k, f_sub G a3 k)"

fun vfloor_ops :: "'f glsl \<Rightarrow> 'f \<times> 'f \<times> 'f \<Rightarrow> 'f \<times> 'f \<times> 'f" where
  "vfloor_ops G (a1, a2, a3) = (f_floor G a1, f_floor G a2, f_floor G a3)"

fun vfract_ops :: "'f glsl \<Rightarrow> 'f \<times> 'f \<times> 'f \<Rightarrow> 'f \<times> 'f \<times> 'f" where
  "vfract_ops G (a1, a2, a3) = (f_fract G a1, f_fract G a2, f_fract G a3)"

fun vmix_ops :: "'f glsl \<Rightarrow> 'f \<times> 'f \<times> 'f \<Rightarrow> 'f \<times> 'f \<times> 'f \<Rightarrow> 'f \<Rightarrow> 'f \<times> 'f \<times> 'f" where
  "vmix_ops G (a1, a2, a3) (b1, b2, b3) k = (f_mix G a1 b1 k, f_mix G a2 b2 k, f_mix G a3 b3 k)"

fun xyz_ops :: "'f \<times> 'f \<times> 'f \<times> 'f \<Rightarrow> 'f \<times> 'f \<times> 'f" where
  "xyz_ops (a1, a2, a3, a4) = (a1, a2, a3)"

fun vw_ops :: "'f \<times> 'f \<times> 'f \<times> 'f \<Rightarrow> 'f" where
  "vw_ops (a1, a2, a3, a4) = a4"

fun vol3D_ops ::
  "'f glsl \<Rightarrow> ('f \<times> 'f \<Rightarrow> 'f \<times> 'f \<times> 'f \<times> 'f) \<Rightarrow> 'f \<times> 'f \<times> 'f \<Rightarrow> 'f \<Rightarrow> 'f \<Rightarrow>
   'f \<times> 'f \<times> 'f \<times> 'f" where
  "vol3D_ops G sampler (c1, c2, c3) tileDimension rowLength =
     (let tileIndex = f_div G (f_floor G (f_mul G c3 tileDimension)) rowLength;
          tileCoord1 = f_mul G (f_fract G tileIndex) rowLength;
          tileCoord2 = f_floor G tileIndex
      in sampler (f_div G (f_add G tileCoord1 c1) rowLength,
                  f_div G (f_add G tileCoord2 c2) rowLength))"

text \<open>The three tests \<open>if (i.x >= u_dimension) { i.x -= u_dimension; }\<close>, for x, y and z.\<close>

fun wrapX_ops :: "'f glsl \<Rightarrow> 'f \<Rightarrow> 'f \<times> 'f \<times> 'f \<Rightarrow> 'f \<times> 'f \<times> 'f" where
  "wrapX_ops G d (a1, a2, a3) = (if f_ge G a1 d then f_sub G a1 d else a1, a2, a3)"

fun wrapY_ops :: "'f glsl \<Rightarrow> 'f \<Rightarrow> 'f \<times> 'f \<times> 'f \<Rightarrow> 'f \<times> 'f \<times> 'f" where
  "wrapY_ops G d (a1, a2, a3) = (a1, if f_ge G a2 d then f_sub G a2 d else a2, a3)"

fun wrapZ_ops :: "'f glsl \<Rightarrow> 'f \<Rightarrow> 'f \<times> 'f \<times> 'f \<Rightarrow> 'f \<times> 'f \<times> 'f" where
  "wrapZ_ops G d (a1, a2, a3) = (a1, a2, if f_ge G a3 d then f_sub G a3 d else a3)"

definition smooth5_ops :: "'f glsl \<Rightarrow> 'f \<Rightarrow> 'f" where
  "smooth5_ops G f =
     f_mul G (f_mul G (f_mul G f f) f)
       (f_add G (f_mul G f (f_sub G (f_mul G f (f_lit G 6)) (f_lit G 15))) (f_lit G 10))"

definition corner_ops ::
  "'f glsl \<Rightarrow> 'f shader_uniforms \<Rightarrow> 'f \<times> 'f \<times> 'f \<Rightarrow> 'f \<times> 'f \<times> 'f \<Rightarrow> 'f \<times> 'f \<times> 'f \<Rightarrow> 'f" where
  "corner_ops G U i stu_f offs =
     (let f = xyz_ops (vol3D_ops G (u_sampler U) (vdivs_ops G i (u_dimension U))
                         (u_dimension U) (u_rowLength U));
          c = f_normalize G (vsubs_ops G (vscale_ops G f (f_lit G 2)) (f_lit G 1))
      in f_dot G c (vsub_ops G stu_f offs))"

definition noise3D_ops :: "'f glsl \<Rightarrow> 'f shader_uniforms \<Rightarrow> 'f \<times> 'f \<times> 'f \<Rightarrow> 'f" where
  "noise3D_ops G U stu0 =
     (let stu = vscale_ops G stu0 (u_dimension U);
          stu_i = vfloor_ops G stu;
          stu_f = vfract_ops G stu;
          d = u_dimension U;
          l0 = f_lit G 0;
          l1 = f_lit G 1
      in case stu_f of (f1, f2, f3) \<Rightarrow>
        let s1 = smooth5_ops G f1; s2 = smooth5_ops G f2; s3 = smooth5_ops G f3;
            i000 = stu_i;
            i100 = wrapX_ops G d (vadd_ops G stu_i (l1, l0, l0));
            i010 = wrapY_ops G d (vadd_ops G stu_i (l0, l1, l0));
            i110 = wrapY_ops G d (wrapX_ops G d (vadd_ops G stu_i (l1, l1, l0)));
            i001 = wrapZ_ops G d (vadd_ops G stu_i (l0, l0, l1));
            i101 = wrapZ_ops G d (wrapX_ops G d (vadd_ops G stu_i (l1, l0, l1)));
            i011 = wrapZ_ops G d (wrapY_ops G d (vadd_ops G stu_i (l0, l1, l1)));
            i111 = wrapZ_ops G d (wrapY_ops G d (wrapX_ops G d (vadd_ops G stu_i (l1, l1, l1))));
            d000 = corner_ops G U i000 stu_f (l0, l0, l0);
            d100 = corner_ops G U i100 stu_f (l1, l0, l0);
            d010 = corner_ops G U i010 stu_f (l0, l1, l0);
            d110 = corner_ops G U i110 stu_f (l1, l1, l0);
            d001 = corner_ops G U i001 stu_f (l0, l0, l1);
            d101 = corner_ops G U i101 stu_f (l1, l0, l1);
            d011 = corner_ops G U i011 stu_f (l0, l1, l1);
            d111 = corner_ops G U i111 stu_f (l1, l1, l1)
        in f_mix G (f_mix G (f_mix G d000 d100 s1) (f_mix G d010 d110 s1) s2)
                   (f_mix G (f_mix G d001 d101 s1) (f_mix G d011 d111 s1) s2) s3)"

fun wrapVolumeCoords_ops :: "'f glsl \<Rightarrow> 'f \<times> 'f \<times> 'f \<Rightarrow> 'f \<times> 'f \<times> 'f" where
  "wrapVolumeCoords_ops G (c1, c2, c3) =
     (let f1 = f_fract G c1; f2 = f_fract G c2; f3 = f_fract G c3
      in (if f_lt G f1 (f_lit G 0) then f_add G f1 (f_lit G 1) else f1,
          if f_lt G f2 (f_lit G 0) then f_add G f2 (f_lit G 1) else f2,
          if f_lt G f3 (f_lit G 0) then f_add G f3 (f_lit G 1) else f3))"

definition sampleDensity_ops ::
  "'f glsl \<Rightarrow> 'f shader_uniforms \<Rightarrow> 'f \<times> 'f \<times> 'f \<Rightarrow> 'f \<Rightarrow> 'f \<times> 'f \<times> 'f \<Rightarrow> 'f \<Rightarrow> 'f \<Rightarrow> 'f" where
  "sampleDensity_ops G U stu scale translation slope offset =
     f_clamp G
       (f_add G
          (f_mul G
             (noise3D_ops G U
                (wrapVolumeCoords_ops G (vadd_ops G (vscale_ops G stu scale) translation)))
             slope)
          offset)
       (f_lit G 0) (f_lit G 1)"

definition sampleLayeredDensity_ops :: "'f glsl \<Rightarrow> 'f shader_uniforms \<Rightarrow> 'f \<times> 'f \<times> 'f \<Rightarrow> 'f" where
  "sampleLayeredDensity_ops G U stu =
     (let density1 = sampleDensity_ops G U stu (vw_ops (u_noise1InputSettings U))
            (xyz_ops (u_noise1InputSettings U)) (fst (u_noise1OutputSettings U))
            (snd (u_noise1OutputSettings U));
          density2 = f_add G density1 (sampleDensity_ops G U stu
            (vw_ops (u_noise2InputSettings U)) (xyz_ops (u_noise2InputSettings U))
            (fst (u_noise2OutputSettings U)) (snd (u_noise2OutputSettings U)));
          density3 = f_add G density2 (sampleDensity_ops G U stu
            (vw_ops (u_noise3InputSettings U)) (xyz_ops (u_noise3InputSettings U))
            (fst (u_noise3OutputSettings U)) (snd (u_noise3OutputSettings U)));
          density4 = f_add G density3 (sampleDensity_ops G U stu
            (vw_ops (u_noise4InputSettings U)) (xyz_ops (u_noise4InputSettings U))
            (fst (u_noise4OutputSettings U)) (snd (u_noise4OutputSettings U)));
          density5 = f_add G density4 (sampleDensity_ops G U stu
            (vw_ops (u_noise5InputSettings U)) (xyz_ops (u_noise5InputSettings U))
            (fst (u_noise5OutputSettings U)) (snd (u_noise5OutputSettings U)))
      in f_clamp G density5 (f_lit G 0) (f_lit G 1))"

subsection \<open>The ray march over any arithmetic\<close>

definition densityFalloffStart_ops ::
  "'f glsl \<Rightarrow> 'f shader_uniforms \<Rightarrow> 'f \<times> 'f \<times> 'f \<Rightarrow> 'f \<times> 'f \<times> 'f \<Rightarrow> 'f" where
  "densityFalloffStart_ops G U ro rd =
     (case u_stepSettings U of (tmin, tdensityFalloff, tmax, stepSize) \<Rightarrow>
        f_length G (vadd_ops G ro (vscale_ops G rd tdensityFalloff)))"

definition densityFalloffEnd_ops ::
  "'f glsl \<Rightarrow> 'f shader_uniforms \<Rightarrow> 'f \<times> 'f \<times> 'f \<Rightarrow> 'f \<times> 'f \<times> 'f \<Rightarrow> 'f" where
  "densityFalloffEnd_ops G U ro rd =
     (case u_stepSettings U of (tmin, tdensityFalloff, tmax, stepSize) \<Rightarrow>
        f_length G (vadd_ops G ro (vscale_ops G rd tmin)))"

definition densityFalloffSize_ops ::
  "'f glsl \<Rightarrow> 'f shader_uniforms \<Rightarrow> 'f \<times> 'f \<times> 'f \<Rightarrow> 'f \<times> 'f \<times> 'f \<Rightarrow> 'f" where
  "densityFalloffSize_ops G U ro rd =
     f_sub G (densityFalloffStart_ops G U ro rd) (densityFalloffEnd_ops G U ro rd)"

definition falloffDensity_ops ::
  "'f glsl \<Rightarrow> 'f shader_uniforms \<Rightarrow> 'f \<times> 'f \<times> 'f \<Rightarrow> 'f \<times> 'f \<times> 'f \<Rightarrow> 'f \<times> 'f \<times> 'f \<Rightarrow> 'f" where
  "falloffDensity_ops G U ro rd pos =
     (let sampleDistance = f_length G pos;
          density = sampleLayeredDensity_ops G U pos
      in if f_lt G sampleDistance (densityFalloffStart_ops G U ro rd)
         then f_mix G (f_lit G 0) density
                (f_div G (f_sub G sampleDistance (densityFalloffEnd_ops G U ro rd))
                   (densityFalloffSize_ops G U ro rd))
         else density)"

text \<open>
  The loop towards the sun: \<open>for (int j=0; j<50; j++)\<close>, left by \<open>break\<close> when
  \<open>densityToSun >= 1.0\<close> or \<open>tsun > tsunMax\<close> is true. The counter is an integer of the
  shading language; the result is \<open>densityToSun\<close> and the number of rounds made.
\<close>

function sunLoop_ops ::
  "'f glsl \<Rightarrow> 'f shader_uniforms \<Rightarrow> 'f \<times> 'f \<times> 'f \<Rightarrow> 'f \<times> 'f \<times> 'f \<Rightarrow> 'f \<times> 'f \<times> 'f \<Rightarrow>
   'f \<times> 'f \<times> 'f \<Rightarrow> nat \<Rightarrow> 'f \<Rightarrow> 'f \<Rightarrow> 'f \<times> nat" where
  "sunLoop_ops G U ro rd sunDir currentPos j tsun densityToSun =
     (if j < 50
      then
        let newPos = vadd_ops G currentPos
                       (vscale_ops G (sscale_ops G (f_lit G (- 1)) sunDir) tsun);
            sampleDistance = f_length G newPos;
            densityToSun1 =
              (if f_ge G sampleDistance (densityFalloffEnd_ops G U ro rd)
               then f_clamp G (f_add G densityToSun (falloffDensity_ops G U ro rd newPos))
                      (f_lit G 0) (f_lit G 1)
               else densityToSun);
            tsun1 = f_add G tsun (snd (u_sunStepSettings U))
        in if f_ge G densityToSun1 (f_lit G 1) then (f_lit G 1, j + 1)
           else if f_gt G tsun1 (fst (u_sunStepSettings U)) then (densityToSun1, j + 1)
           else sunLoop_ops G U ro rd sunDir currentPos (j + 1) tsun1 densityToSun1
      else (densityToSun, j))"
  by pat_completeness auto
termination
  by (relation
      "measure (\<lambda>(G, U, ro, rd, sunDir, currentPos, j, tsun, densityToSun). 50 - j)") auto

definition composite_ops ::
  "'f glsl \<Rightarrow> 'f shader_uniforms \<Rightarrow> 'f \<times> 'f \<times> 'f \<Rightarrow> 'f \<times> 'f \<times> 'f \<Rightarrow> 'f \<times> 'f \<times> 'f \<Rightarrow>
   'f \<times> 'f \<times> 'f \<Rightarrow> 'f \<times> 'f \<times> 'f \<Rightarrow> 'f \<Rightarrow> 'f \<Rightarrow> 'f \<times> 'f \<times> 'f \<times> 'f \<Rightarrow>
   'f \<times> 'f \<times> 'f \<times> 'f" where
  "composite_ops G U ro rd sunDir skyColor currentPos t density cloudColor =
     (let densityToSun =
            fst (sunLoop_ops G U ro rd sunDir currentPos 0 (f_lit G 0) density);
          brightness =
            f_exp G (f_mul G (f_mul G (f_lit G (- 1)) (u_lightAbsorption U)) densityToSun);
          rgb0 = vmix_ops G (u_darkColor U) (u_lightColor U) brightness;
          rgb1 = vmix_ops G skyColor rgb0
                   (f_exp G (f_mul G (f_mul G (f_lit G (- 1)) (u_fog U)) t));
          rgb2 = vscale_ops G rgb1 density;
          k = f_sub G (f_lit G 1) (vw_ops cloudColor)
      in case (cloudColor, vscale_ops G rgb2 k) of
           ((c1, c2, c3, c4), (p1, p2, p3)) \<Rightarrow>
             (f_add G c1 p1, f_add G c2 p2, f_add G c3 p3, f_add G c4 (f_mul G density k)))"

text \<open>
  The primary loop: \<open>for (int i=0; i<200; i++)\<close>, left by \<open>break\<close> when
  \<open>cloudColor.a >= 1.0\<close> or \<open>t > tmax\<close> is true. The result is \<open>cloudColor\<close> and the number
  of rounds made.
\<close>

function marchLoop_ops ::
  "'f glsl \<Rightarrow> 'f shader_uniforms \<Rightarrow> 'f \<times> 'f \<times> 'f \<Rightarrow> 'f \<times> 'f \<times> 'f \<Rightarrow> 'f \<times> 'f \<times> 'f \<Rightarrow>
   'f \<times> 'f \<times> 'f \<Rightarrow> nat \<Rightarrow> 'f \<Rightarrow> 'f \<times> 'f \<times> 'f \<times> 'f \<Rightarrow> ('f \<times> 'f \<times> 'f \<times> 'f) \<times> nat" where
  "marchLoop_ops G U ro rd sunDir skyColor i t cloudColor =
     (if i < 200
      then
        let currentPos = vadd_ops G ro (vscale_ops G rd t);
            density = falloffDensity_ops G U ro rd currentPos;
            cloudColor1 =
              (if f_gt G density (f_lit G 0.01)
               then composite_ops G U ro rd sunDir skyColor currentPos t density cloudColor
               else cloudColor);
            t1 = f_add G t (vw_ops (u_stepSettings U))
        in if f_ge G (vw_ops cloudColor1) (f_lit G 1)
           then (case cloudColor1 of (c1, c2, c3, c4) \<Rightarrow> ((c1, c2, c3, f_lit G 1), i + 1))
           else if f_gt G t1
                     (case u_stepSettings U of (tmin, tdensityFalloff, tmax, stepSize) \<Rightarrow> tmax)
           then (cloudColor1, i + 1)
           else marchLoop_ops G U ro rd sunDir skyColor (i + 1) t1 cloudColor1
      else (cloudColor, i))"
  by pat_completeness auto
termination
  by (relation
      "measure (\<lambda>(G, U, ro, rd, sunDir, skyColor, i, t, cloudColor). 200 - i)") auto

declare sunLoop_ops.simps [simp del] marchLoop_ops.simps [simp del]

definition raymarchingRounds_ops ::
  "'f glsl \<Rightarrow> 'f shader_uniforms \<Rightarrow> 'f \<times> 'f \<times> 'f \<Rightarrow> 'f \<times> 'f \<times> 'f \<Rightarrow> 'f \<times> 'f \<times> 'f \<Rightarrow>
   'f \<times> 'f \<times> 'f \<Rightarrow> ('f \<times> 'f \<times> 'f \<times> 'f) \<times> nat" where
  "raymarchingRounds_ops G U ro rd sunDir skyColor =
     (case u_stepSettings U of (tmin, tdensityFalloff, tmax, stepSize) \<Rightarrow>
        marchLoop_ops G U ro rd sunDir skyColor 0 tmin
          (f_lit G 0, f_lit G 0, f_lit G 0, f_lit G 0))"

definition raymarching_ops ::
  "'f glsl \<Rightarrow> 'f shader_uniforms \<Rightarrow> 'f \<times> 'f \<times> 'f \<Rightarrow> 'f \<times> 'f \<times> 'f \<Rightarrow> 'f \<times> 'f \<times> 'f \<Rightarrow>
   'f \<times> 'f \<times> 'f \<Rightarrow> 'f \<times> 'f \<times> 'f \<times> 'f" where
  "raymarching_ops G U ro rd sunDir skyColor =
     fst (raymarchingRounds_ops G U ro rd sunDir skyColor)"

text \<open>The arithmetic of the real numbers, with the built-in functions as defined above.\<close>

definition real_glsl :: "real glsl" where
  "real_glsl =
     \<lparr>f_lit = (\<lambda>r. r), f_add = (+), f_sub = (-), f_mul = (*), f_div = (/),
      f_lt = (<), f_gt = (\<lambda>a b. a > b), f_ge = (\<lambda>a b. a \<ge> b),
      f_floor = gfloor, f_fract = fract, f_exp = exp, f_mix = mix, f_clamp = clamp,
      f_length = vlength, f_dot = dot, f_normalize = normalize\<rparr>"

text \<open>For the proofs: the third step setting, \<open>tmax\<close>.\<close>

definition tmax_ops :: "'f shader_uniforms \<Rightarrow> 'f" where
  "tmax_ops U = (case u_stepSettings U of (tmin, tdensityFalloff, tmax, stepSize) \<Rightarrow> tmax)"


subsection \<open>An arithmetic with infinities and NaN\<close>

text \<open>
  Numbers as floating point has them, without the rounding: a real number, plus or
  minus infinity, or NaN. An operation on NaN gives NaN, an undefined operation
  (infinity minus infinity, zero times infinity, zero over zero) gives NaN, and every
  comparison with NaN is false.
\<close>

datatype xreal = Finite real | PosInf | NegInf | NaN

fun x_neg :: "xreal \<Rightarrow> xreal" where
  "x_neg (Finite a) = Finite (- a)"
| "x_neg PosInf = NegInf"
| "x_neg NegInf = PosInf"
| "x_neg NaN = NaN"

fun x_add :: "xreal \<Rightarrow> xreal \<Rightarrow> xreal" where
  "x_add (Finite a) (Finite b) = Finite (a + b)"
| "x_add NaN b = NaN"
| "x_add a NaN = NaN"
| "x_add PosInf NegInf = NaN"
| "x_add NegInf PosInf = NaN"
| "x_add PosInf b = PosInf"
| "x_add a PosInf = PosInf"
| "x_add NegInf b = NegInf"
| "x_add a NegInf = NegInf"

definition x_sub :: "xreal \<Rightarrow> xreal \<Rightarrow> xreal" where
  "x_sub a b = x_add a (x_neg b)"

text \<open>The sign of a number that is not NaN: 1, 0 or - 1.\<close>

fun x_sign :: "xreal \<Rightarrow> real" where
  "x_sign (Finite a) = sgn a"
| "x_sign PosInf = 1"
| "x_sign NegInf = - 1"
| "x_sign NaN = 0"

definition x_inf :: "real \<Rightarrow> xreal" where
  "x_inf s = (if s = 0 then NaN else if s > 0 then PosInf else NegInf)"

fun x_mul :: "xreal \<Rightarrow> xreal \<Rightarrow> xreal" where
  "x_mul (Finite a) (Finite b) = Finite (a * b)"
| "x_mul NaN b = NaN"
| "x_mul a NaN = NaN"
| "x_mul a b = x_inf (x_sign a * x_sign b)"

fun x_div :: "xreal \<Rightarrow> xreal \<Rightarrow> xreal" where
  "x_div (Finite a) (Finite b) = (if b = 0 then x_inf (sgn a) else Finite (a / b))"
| "x_div NaN b = NaN"
| "x_div a NaN = NaN"
| "x_div (Finite a) b = Finite 0"
| "x_div a (Finite b) = x_inf (x_sign a * (if b < 0 then - 1 else 1))"
| "x_div a b = NaN"

fun x_lt :: "xreal \<Rightarrow> xreal \<Rightarrow> bool" where
  "x_lt (Finite a) (Finite b) = (a < b)"
| "x_lt NaN b = False"
| "x_lt a NaN = False"
| "x_lt PosInf b = False"
| "x_lt a NegInf = False"
| "x_lt a b = True"

definition x_ge :: "xreal \<Rightarrow> xreal \<Rightarrow> bool" where
  "x_ge a b = (a \<noteq> NaN \<and> b \<noteq> NaN \<and> \<not> x_lt a b)"

fun x_floor :: "xreal \<Rightarrow> xreal" where
  "x_floor (Finite a) = Finite (of_int \<lfloor>a\<rfloor>)"
| "x_floor a = a"

fun x_exp :: "xreal \<Rightarrow> xreal" where
  "x_exp (Finite a) = Finite (exp a)"
| "x_exp NegInf = Finite 0"
| "x_exp a = a"

fun x_sqrt :: "xreal \<Rightarrow> xreal" where
  "x_sqrt (Finite a) = (if a < 0 then NaN else Finite (sqrt a))"
| "x_sqrt NegInf = NaN"
| "x_sqrt a = a"

text \<open>The built-in functions, by the formulas the shading language gives for them.\<close>

definition x_min :: "xreal \<Rightarrow> xreal \<Rightarrow> xreal" where
  "x_min a b = (if x_lt b a then b else a)"

definition x_max :: "xreal \<Rightarrow> xreal \<Rightarrow> xreal" where
  "x_max a b = (if x_lt a b then b else a)"

definition x_mix :: "xreal \<Rightarrow> xreal \<Rightarrow> xreal \<Rightarrow> xreal" where
  "x_mix a b k = x_add (x_mul a (x_sub (Finite 1) k)) (x_mul b k)"

fun x_dot :: "xreal \<times> xreal \<times> xreal \<Rightarrow> xreal \<times> xreal \<times> xreal \<Rightarrow> xreal" where
  "x_dot (a1, a2, a3) (b1, b2, b3) = x_add (x_add (x_mul a1 b1) (x_mul a2 b2)) (x_mul a3 b3)"

definition x_length :: "xreal \<times> xreal \<times> xreal \<Rightarrow> xreal" where
  "x_length v = x_sqrt (x_dot v v)"

fun x_normalize :: "xreal \<times> xreal \<times> xreal \<Rightarrow> xreal \<times> xreal \<times> xreal" where
  "x_normalize (a1, a2, a3) =
     (x_div a1 (x_length (a1, a2, a3)), x_div a2 (x_length (a1, a2, a3)),
      x_div a3 (x_length (a1, a2, a3)))"

definition xreal_glsl :: "xreal glsl" where
  "xreal_glsl =
     \<lparr>f_lit = Finite, f_add = x_add, f_sub = x_sub, f_mul = x_mul, f_div = x_div,
      f_lt = x_lt, f_gt = (\<lambda>a b. x_lt b a), f_ge = x_ge,
      f_floor = x_floor, f_fract = (\<lambda>a. x_sub a (x_floor a)), f_exp = x_exp,
      f_mix = x_mix, f_clamp = (\<lambda>a lo hi. x_min (x_max a lo) hi),
      f_length = x_length, f_dot = x_dot,
      f_normalize = x_normalize\<rparr>"

text \<open>A configuration in which every uniform is NaN.\<close>

definition nanUniforms :: "xreal shader_uniforms" where
  "nanUniforms =
     \<lparr>u_sampler = (\<lambda>c. (NaN, NaN, NaN, NaN)), u_dimension = NaN, u_rowLength = NaN,
      u_noise1InputSettings = (NaN, NaN, NaN, NaN), u_noise1OutputSettings = (NaN, NaN),
      u_noise2InputSettings = (NaN, NaN, NaN, NaN), u_noise2OutputSettings = (NaN, NaN),
      u_noise3InputSettings = (NaN, NaN, NaN, NaN), u_noise3OutputSettings = (NaN, NaN),
      u_noise4InputSettings = (NaN, NaN, NaN, NaN), u_noise4OutputSettings = (NaN, NaN),
      u_noise5InputSettings = (NaN, NaN, NaN, NaN), u_noise5OutputSettings = (NaN, NaN),
      u_stepSettings = (NaN, NaN, NaN, NaN),
      u_skyColor = (NaN, NaN, NaN), u_darkColor = (NaN, NaN, NaN),
      u_lightColor = (NaN, NaN, NaN), u_sunDir = (NaN, NaN, NaN),
      u_sunStepSettings = (NaN, NaN), u_lightAbsorption = NaN, u_fog = NaN\<rparr>"

section \<open>Properties of the bake scheduler\<close>

lemmas tile_consts = MAX_LIGHTNING_STAGES_def MAX_Y_TILES_def MAX_X_TILES_def

subsection \<open>A full bake renders every tile once\<close>

lemma divmod_digit:
  fixes a q k :: int
  assumes "0 \<le> a" "a < k"
  shows "(k * q + a) div k = q" and "(k * q + a) mod k = a"
  using assms by simp_all

lemma tile_at:
  assumes "0 \<le> p" "p < 6" "0 \<le> b" "b < 8" "0 \<le> a" "a < 8"
  shows "panelToRender p = Some (faceOf (nat p))"
    and "tile (nat (p * 64 + b * 8 + a)) = (a, b, faceOf (nat p))"
proof -
  from assms have "p = 0 \<or> p = 1 \<or> p = 2 \<or> p = 3 \<or> p = 4 \<or> p = 5" by arith
  then show "panelToRender p = Some (faceOf (nat p))"
    by (auto simp add: panelToRender_def)
  let ?n = "nat (p * 64 + b * 8 + a)"
  from assms have n: "int ?n = p * 64 + b * 8 + a" by simp
  have e8: "p * 64 + b * 8 + a = 8 * (p * 8 + b) + a" by simp
  have e64: "p * 64 + b * 8 + a = 64 * p + (b * 8 + a)" by simp
  have "int (?n mod 8) = (p * 64 + b * 8 + a) mod 8" using n by (simp add: zmod_int)
  also have "\<dots> = a" unfolding e8 using assms by (rule_tac divmod_digit(2)) 
  finally have 1: "int (?n mod 8) = a" .
  have "int (?n div 8 mod 8) = (p * 64 + b * 8 + a) div 8 mod 8"
    using n by (simp add: zmod_int zdiv_int)
  also have "(p * 64 + b * 8 + a) div 8 = p * 8 + b"
    unfolding e8 using assms by (rule_tac divmod_digit(1))
  also have "(p * 8 + b) mod 8 = b" using divmod_digit(2)[of b 8 p] assms by simp
  finally have 2: "int (?n div 8 mod 8) = b" .
  have "int (?n div 64) = (p * 64 + b * 8 + a) div 64" using n by (simp add: zdiv_int)
  also have "\<dots> = p" unfolding e64 using assms by (intro divmod_digit(1)) auto
  finally have "?n div 64 = nat p" by simp
  with 1 2 show "tile ?n = (a, b, faceOf (nat p))" by (simp add: tile_def)
qed


lemma renderNewSkybox_mid:
  assumes "mid s" "idx s < 384"
  shows "\<exists>s' l. renderNewSkybox s = (s', l) \<and> mid s' \<and> idx s' = Suc (idx s) \<and>
           rendered l = Some (tile (idx s))"
proof -
  from assms(1) have r: "resetStages s = s" and e: "errorChecking s = (s, [])"
    and bd: "lightning s = 0" "0 \<le> panel s" "panel s < 6" "0 \<le> y s" "y s < 8" "0 \<le> x s" "x s \<le> 8"
    and nr: "\<not> newSkyboxRequested s"
    by (simp_all add: mid_def resetStages_def errorChecking_def)
  consider (c1) "x s < 8" | (c2) "x s = 8" "y s < 7" | (c3) "x s = 8" "y s = 7" "panel s < 5"
    | (c4) "x s = 8" "y s = 7" "panel s = 5"
    using bd by linarith
  then show ?thesis
  proof cases
    case c1
    then have i: "incrementing s = s" using bd by (simp add: incrementing_def tile_consts)
    have t: "tile (idx s) = (x s, y s, faceOf (nat (panel s)))"
      unfolding idx_def using c1 bd by (intro tile_at(2)) auto
    have p: "panelToRender (panel s) = Some (faceOf (nat (panel s)))"
      using c1 bd by (intro tile_at(1)[of _ 0 0]) auto
    have m: "mid (s\<lparr>x := x s + 1\<rparr>)" using c1 bd nr by (simp add: mid_def)
    have n: "idx (s\<lparr>x := x s + 1\<rparr>) = Suc (idx s)" using c1 bd by (simp add: idx_def nat_add_distrib)
    show ?thesis using m n by (simp add: renderNewSkybox_def r e i bd p t tile_consts)
  next
    case c2
    let ?s = "s\<lparr>y := y s + 1, x := 0\<rparr>"
    have i: "incrementing s = ?s" using c2 \<open>panel s < 6\<close> by (simp add: incrementing_def tile_consts)
    have "idx s = nat (panel s * 64 + (y s + 1) * 8 + 0)" using c2 by (simp add: idx_def algebra_simps)
    also have "tile \<dots> = (0, y s + 1, faceOf (nat (panel s)))"
      using c2 \<open>0 \<le> panel s\<close> \<open>panel s < 6\<close> \<open>0 \<le> y s\<close> by (intro tile_at(2)) auto
    finally have t: "tile (idx s) = (0, y s + 1, faceOf (nat (panel s)))" .
    have p: "panelToRender (panel s) = Some (faceOf (nat (panel s)))"
      using \<open>0 \<le> panel s\<close> \<open>panel s < 6\<close> by (intro tile_at(1)[of _ 0 0]) auto
    have m: "mid (?s\<lparr>x := 1\<rparr>)"
      using c2 nr \<open>lightning s = 0\<close> \<open>0 \<le> panel s\<close> \<open>panel s < 6\<close> \<open>0 \<le> y s\<close> by (simp add: mid_def)
    have n: "idx (?s\<lparr>x := 1\<rparr>) = Suc (idx s)"
      using c2 \<open>0 \<le> panel s\<close> \<open>0 \<le> y s\<close> by (simp add: idx_def nat_add_distrib algebra_simps)
    show ?thesis using m n \<open>lightning s = 0\<close> by (simp add: renderNewSkybox_def r e i p t tile_consts)
  next
    case c3
    let ?s = "s\<lparr>y := 0, x := 0, panel := panel s + 1\<rparr>"
    have i: "incrementing s = ?s" using c3 by (simp add: incrementing_def tile_consts)
    have "idx s = nat ((panel s + 1) * 64 + 0 * 8 + 0)" using c3 by (simp add: idx_def algebra_simps)
    also have "tile \<dots> = (0, 0, faceOf (nat (panel s + 1)))"
      using c3 \<open>0 \<le> panel s\<close> by (intro tile_at(2)) auto
    finally have t: "tile (idx s) = (0, 0, faceOf (nat (panel s + 1)))" .
    have p: "panelToRender (panel s + 1) = Some (faceOf (nat (panel s + 1)))"
      using c3 \<open>0 \<le> panel s\<close> by (intro tile_at(1)[of _ 0 0]) auto
    have m: "mid (?s\<lparr>x := 1\<rparr>)"
      using c3 nr \<open>lightning s = 0\<close> \<open>0 \<le> panel s\<close> by (simp add: mid_def)
    have n: "idx (?s\<lparr>x := 1\<rparr>) = Suc (idx s)"
      using c3 \<open>0 \<le> panel s\<close> by (simp add: idx_def nat_add_distrib algebra_simps)
    show ?thesis using m n \<open>lightning s = 0\<close> by (simp add: renderNewSkybox_def r e i p t tile_consts)
  next
    case c4
    then have "idx s = 384" by (simp add: idx_def)
    with assms(2) show ?thesis by simp
  qed
qed

lemma frames_mid:
  "mid s \<Longrightarrow> idx s + k \<le> 384 \<Longrightarrow>
     snd (frames k s) = map tile [idx s ..< idx s + k] \<and> mid (fst (frames k s)) \<and>
     idx (fst (frames k s)) = idx s + k"
proof (induction k arbitrary: s)
  case 0
  then show ?case by simp
next
  case (Suc k)
  from Suc.prems obtain s' l where st: "renderNewSkybox s = (s', l)" "mid s'"
    "idx s' = Suc (idx s)" "rendered l = Some (tile (idx s))"
    using renderNewSkybox_mid[of s] by auto
  from Suc.IH[of s'] st Suc.prems(2)
  have ih: "snd (frames k s') = map tile [idx s' ..< idx s' + k]" "mid (fst (frames k s'))"
    "idx (fst (frames k s')) = idx s' + k" by auto
  have u: "[idx s ..< idx s + Suc k] = idx s # [idx s' ..< idx s' + k]"
    using st(3) by (simp add: upt_conv_Cons)
  show ?case unfolding u using st ih by (simp add: split_beta)
qed


lemma faceOf_inj: "a < 6 \<Longrightarrow> b < 6 \<Longrightarrow> faceOf a = faceOf b \<Longrightarrow> a = b"
  by (simp split: if_splits)

lemma tile_inj: "inj_on tile {0..<384}"
proof (rule inj_onI)
  fix n m :: nat
  assume n: "n \<in> {0..<384}" and m: "m \<in> {0..<384}" and eq: "tile n = tile m"
  from n m have "n div 64 < 6" "m div 64 < 6" by auto
  with eq have 1: "n div 64 = m div 64" and 2: "n div 8 mod 8 = m div 8 mod 8"
    and 3: "n mod 8 = m mod 8"
    by (auto simp add: tile_def dest: faceOf_inj)
  have d: "k = 64 * (k div 64) + 8 * (k div 8 mod 8) + k mod 8" for k :: nat
  proof -
    have "k div 8 = 8 * (k div 8 div 8) + k div 8 mod 8" by simp
    moreover have "k div 8 div 8 = k div 64" by (simp add: div_mult2_eq[symmetric])
    moreover have "k = 8 * (k div 8) + k mod 8" by simp
    ultimately show ?thesis by linarith
  qed
  show "n = m" using d[of n] d[of m] 1 2 3 by simp
qed

lemma tile_range: "tile ` {0..<384} = {0..<8} \<times> {0..<8} \<times> UNIV"
proof (rule set_eqI)
  fix c :: "int \<times> int \<times> skyBoxModel"
  obtain a b m where c: "c = (a, b, m)" by (cases c)
  show "c \<in> tile ` {0..<384} \<longleftrightarrow> c \<in> {0..<8} \<times> {0..<8} \<times> UNIV"
  proof
    assume "c \<in> tile ` {0..<384}"
    then obtain n where "c = tile n" by auto
    then show "c \<in> {0..<8} \<times> {0..<8} \<times> UNIV" by (simp add: tile_def)
  next
    assume "c \<in> {0..<8} \<times> {0..<8} \<times> UNIV"
    then have ab: "0 \<le> a" "a < 8" "0 \<le> b" "b < 8" using c by auto
    obtain p :: int where p: "0 \<le> p" "p < 6" "faceOf (nat p) = m"
    proof (cases m)
      case nzPlane then show ?thesis using that[of 0] by simp
    next
      case pxPlane then show ?thesis using that[of 1] by simp
    next
      case pzPlane then show ?thesis using that[of 2] by simp
    next
      case nxPlane then show ?thesis using that[of 3] by simp
    next
      case pyPlane then show ?thesis using that[of 4] by simp
    next
      case nyPlane then show ?thesis using that[of 5] by simp
    qed
    have "tile (nat (p * 64 + b * 8 + a)) = c"
      using tile_at(2)[of p b a] p ab c by simp
    moreover have "nat (p * 64 + b * 8 + a) \<in> {0..<384}" using p ab by auto
    ultimately show "c \<in> tile ` {0..<384}" by blast
  qed
qed

lemma renderNewSkybox_requested:
  "renderNewSkybox (requestNewSkybox s) = renderNewSkybox bakeStart"
proof -
  have "resetStages (requestNewSkybox s) = bakeStart"
    by (simp add: resetStages_def requestNewSkybox_def bakeStart_def)
  moreover have "resetStages bakeStart = bakeStart"
    by (simp add: resetStages_def bakeStart_def)
  ultimately show ?thesis by (simp add: renderNewSkybox_def)
qed

lemma frames_requested:
  "frames (Suc k) (requestNewSkybox s) = frames (Suc k) bakeStart"
  by (simp add: renderNewSkybox_requested)

lemma frames_bakeStart: "k \<le> 384 \<Longrightarrow> snd (frames k bakeStart) = map tile [0..<k]"
  using frames_mid[of bakeStart k] by (simp add: mid_def idx_def bakeStart_def)

lemma panel_faces: "panelToRender ` {0..5} = Some ` UNIV \<and> inj_on panelToRender {0..5}"
proof -
  have e: "{0..5::int} = {0, 1, 2, 3, 4, 5}" by auto
  have u: "(UNIV :: skyBoxModel set) = {nzPlane, pxPlane, pzPlane, nxPlane, pyPlane, nyPlane}"
    using skyBoxModel.exhaust by auto
  show ?thesis unfolding e u by (auto simp add: panelToRender_def)
qed

text \<open>
  The viewports of the tiles partition the panel texture: a pixel lies in the viewport
  of the tile \<open>(a, b)\<close> exactly when a and b are its coordinates divided by the tile size.
\<close>

lemma tile_of_pixel:
  fixes a px :: int
  shows "(a * 128 \<le> px \<and> px < a * 128 + 128) = (a = px div 128)"
proof
  assume h: "a * 128 \<le> px \<and> px < a * 128 + 128"
  then have "px = 128 * a + (px - a * 128)" "0 \<le> px - a * 128" "px - a * 128 < 128" by simp_all
  then have "px div 128 = a" using divmod_digit(1)[of "px - a * 128" 128 a] by simp
  then show "a = px div 128" by simp
next
  assume "a = px div 128"
  then show "a * 128 \<le> px \<and> px < a * 128 + 128"
    using div_mult_mod_eq[of px 128] pos_mod_bound[of 128 px] pos_mod_sign[of 128 px]
    by linarith
qed

lemma viewport_partition:
  "inViewport (renderPanelTexture a b) px py = (a = px div 128 \<and> b = py div 128)"
  using tile_of_pixel[of a px] tile_of_pixel[of b py]
  by (auto simp add: inViewport_def renderPanelTexture_def SKYBOX_TILE_SIZE_def)


text \<open>
  C1. After a request for a new skybox, MAX_LIGHTNING_STAGES * 6 * MAX_Y_TILES *
  MAX_X_TILES = 384 calls of \<open>renderNewSkybox\<close> make 384 calls of \<open>renderPanelTexture\<close>,
  no two of them for the same tile of the same panel, and together they cover every tile
  \<open>(x, y)\<close> with x below MAX_X_TILES and y below MAX_Y_TILES of each of the six panels,
  which are the panels of the indices 0 to 5.
\<close>

theorem tile_coverage_completeness:
  "length (snd (frames (nat (MAX_LIGHTNING_STAGES * 6 * MAX_Y_TILES * MAX_X_TILES))
             (requestNewSkybox s))) = 384 \<and>
   distinct (snd (frames (nat (MAX_LIGHTNING_STAGES * 6 * MAX_Y_TILES * MAX_X_TILES))
             (requestNewSkybox s))) \<and>
   set (snd (frames (nat (MAX_LIGHTNING_STAGES * 6 * MAX_Y_TILES * MAX_X_TILES))
             (requestNewSkybox s))) =
     {0..<MAX_X_TILES} \<times> {0..<MAX_Y_TILES} \<times> (UNIV :: skyBoxModel set) \<and>
   Some ` (UNIV :: skyBoxModel set) = panelToRender ` {0..5}"
proof -
  have n: "nat (MAX_LIGHTNING_STAGES * 6 * MAX_Y_TILES * MAX_X_TILES) = Suc 383"
    by (simp add: tile_consts)
  have c: "snd (frames (Suc 383) (requestNewSkybox s)) = map tile [0..<384]"
    unfolding frames_requested using frames_bakeStart[of 384] by simp
  have d: "distinct (map tile [0..<384])"
    using tile_inj by (simp add: distinct_map)
  have r: "set (map tile [0..<384]) = {0..<8} \<times> {0..<8} \<times> UNIV"
    using tile_range by simp
  show ?thesis unfolding n c using d r panel_faces by (simp add: tile_consts)
qed


subsection \<open>The carry from x to y, panel and lightning\<close>

lemma panelToRender_Some: "panelToRender p = Some m \<Longrightarrow> 0 \<le> p \<and> p < 6"
  by (simp add: panelToRender_def split: if_splits)

text \<open>
  C2, as the specification states it, fails: a call with the cursor at x = MAX_X_TILES - 1
  renders that tile and leaves x = MAX_X_TILES, not 0, and y as it was.
\<close>

theorem overflow_carry_counterexample:
  "x (fst (renderNewSkybox \<lparr>newSkyboxRequested = False, lightning = 0, panel = 0, y = 0,
        x = MAX_X_TILES - 1\<rparr>)) = MAX_X_TILES \<and>
   x (fst (renderNewSkybox \<lparr>newSkyboxRequested = False, lightning = 0, panel = 0, y = 0,
        x = MAX_X_TILES - 1\<rparr>)) \<noteq> 0 \<and>
   y (fst (renderNewSkybox \<lparr>newSkyboxRequested = False, lightning = 0, panel = 0, y = 0,
        x = MAX_X_TILES - 1\<rparr>)) = 0 \<and>
   y (fst (renderNewSkybox \<lparr>newSkyboxRequested = False, lightning = 0, panel = 0, y = 0,
        x = MAX_X_TILES - 1\<rparr>)) \<noteq> 0 + 1"
  by (simp add: renderNewSkybox_def resetStages_def errorChecking_def incrementing_def
      panelToRender_def tile_consts)

text \<open>
  C2, amended. With no bake requested, the bake not complete and the cursor on a tile of
  the last column (x = MAX_X_TILES - 1), one call of \<open>renderNewSkybox\<close> renders that tile
  and leaves x = MAX_X_TILES with y, panel and lightning unchanged. The carry is made by
  the following call: it moves to x = 0 of the next row, or of row 0 of the next panel
  when y was at its maximum, renders that tile and leaves x = 1; when the panel was the
  last one too it increments lightning, renders nothing and leaves x = y = panel = 0.
\<close>

theorem overflow_carry_on_next_call:
  assumes "\<not> newSkyboxRequested s" and "0 \<le> lightning s"
    and "lightning s < MAX_LIGHTNING_STAGES"
    and "panelToRender (panel s) = Some m" and "0 \<le> y s" and "y s < MAX_Y_TILES"
    and "x s = MAX_X_TILES - 1"
  shows "renderNewSkybox s =
           (s\<lparr>x := MAX_X_TILES\<rparr>,
            \<lparr>errors = [], rendered = Some (MAX_X_TILES - 1, y s, m)\<rparr>) \<and>
         renderNewSkybox (s\<lparr>x := MAX_X_TILES\<rparr>) =
           (if y s < MAX_Y_TILES - 1
            then (s\<lparr>y := y s + 1, x := 1\<rparr>,
                  \<lparr>errors = [], rendered = Some (0, y s + 1, m)\<rparr>)
            else if panel s < 5
            then (s\<lparr>panel := panel s + 1, y := 0, x := 1\<rparr>,
                  \<lparr>errors = [],
                   rendered = map_option (\<lambda>m'. (0, 0, m')) (panelToRender (panel s + 1))\<rparr>)
            else (s\<lparr>lightning := lightning s + 1, panel := 0, y := 0, x := 0\<rparr>,
                  \<lparr>errors = [], rendered = None\<rparr>))"
proof -
  note a = assms[unfolded tile_consts]
  from a(4) have p: "0 \<le> panel s" "panel s < 6" using panelToRender_Some by auto
  from a(2,3) have l: "lightning s = 0" by simp
  have r: "resetStages s = s" using a(1) by (simp add: resetStages_def)
  have e: "errorChecking s = (s, [])" using a p l by (simp add: errorChecking_def)
  have i: "incrementing s = s" using a p by (simp add: incrementing_def tile_consts)
  have 1: "renderNewSkybox s =
           (s\<lparr>x := 8\<rparr>, \<lparr>errors = [], rendered = Some (7, y s, m)\<rparr>)"
    using a(4,7) l by (simp add: renderNewSkybox_def r e i tile_consts)
  let ?s = "s\<lparr>x := 8\<rparr>"
  have r': "resetStages ?s = ?s" using a(1) by (simp add: resetStages_def)
  have e': "errorChecking ?s = (?s, [])" using a p l by (simp add: errorChecking_def)
  have 2: "renderNewSkybox ?s =
      (s\<lparr>y := y s + 1, x := 1\<rparr>, \<lparr>errors = [], rendered = Some (0, y s + 1, m)\<rparr>)"
    if "y s < 7"
  proof -
    have "incrementing ?s = s\<lparr>y := y s + 1, x := 0\<rparr>"
      using that p by (simp add: incrementing_def tile_consts)
    then show ?thesis using a(4) l
      by (simp add: renderNewSkybox_def r' e' tile_consts)
  qed
  have 3: "renderNewSkybox ?s =
      (s\<lparr>panel := panel s + 1, y := 0, x := 1\<rparr>,
       \<lparr>errors = [], rendered = map_option (\<lambda>m'. (0, 0, m')) (panelToRender (panel s + 1))\<rparr>)"
    if "\<not> y s < 7" "panel s < 5"
  proof -
    from that a(6) have y7: "y s = 7" by simp
    have "incrementing ?s = s\<lparr>panel := panel s + 1, y := 0, x := 0\<rparr>"
      using that y7 by (simp add: incrementing_def tile_consts)
    moreover have "panelToRender (panel s + 1) \<noteq> None"
      using p that by (simp add: panelToRender_def)
    ultimately show ?thesis using l
      by (auto simp add: renderNewSkybox_def r' e' tile_consts)
  qed
  have 4: "renderNewSkybox ?s =
      (s\<lparr>lightning := lightning s + 1, panel := 0, y := 0, x := 0\<rparr>,
       \<lparr>errors = [], rendered = None\<rparr>)"
    if "\<not> y s < 7" "\<not> panel s < 5"
  proof -
    from that a(6) have y7: "y s = 7" by simp
    from that p have p5: "panel s = 5" by simp
    have "incrementing ?s = s\<lparr>lightning := lightning s + 1, panel := 0, y := 0, x := 0\<rparr>"
      using y7 p5 by (simp add: incrementing_def tile_consts)
    then show ?thesis using l
      by (simp add: renderNewSkybox_def r' e' tile_consts)
  qed
  show ?thesis unfolding tile_consts using 1 2 3 4 by simp
qed

theorem overflow_carry_on_next_call_witness:
  "renderNewSkybox \<lparr>newSkyboxRequested = False, lightning = 0, panel = 2, y = 7, x = 7\<rparr> =
     (\<lparr>newSkyboxRequested = False, lightning = 0, panel = 2, y = 7, x = 8\<rparr>,
      \<lparr>errors = [], rendered = Some (7, 7, pzPlane)\<rparr>) \<and>
   renderNewSkybox \<lparr>newSkyboxRequested = False, lightning = 0, panel = 2, y = 7, x = 8\<rparr> =
     (\<lparr>newSkyboxRequested = False, lightning = 0, panel = 3, y = 0, x = 1\<rparr>,
      \<lparr>errors = [], rendered = Some (0, 0, nxPlane)\<rparr>)"
  using overflow_carry_on_next_call
    [of "\<lparr>newSkyboxRequested = False, lightning = 0, panel = 2, y = 7, x = 7\<rparr>" pzPlane]
  by (simp add: panelToRender_def tile_consts)


subsection \<open>Requesting a bake twice\<close>

text \<open>
  C4. Two calls of \<open>requestNewSkybox\<close> in a row followed by N frames leave the same cursor
  and flag (and render the same tiles) as one call followed by N frames, from every state.
\<close>

theorem idempotent_restart:
  "frames N (requestNewSkybox (requestNewSkybox s)) = frames N (requestNewSkybox s)"
  by (simp add: requestNewSkybox_def)


subsection \<open>The cursor never goes negative\<close>

lemma errorChecking_ok: "cursor_ok s \<Longrightarrow> errorChecking s = (s, [])"
  by (simp add: cursor_ok_def errorChecking_def)

lemma resetStages_ok: "cursor_ok s \<Longrightarrow> cursor_ok (resetStages s)"
  by (simp add: cursor_ok_def resetStages_def)

lemma incrementing_ok: "cursor_ok s \<Longrightarrow> cursor_ok (incrementing s)"
  by (simp add: cursor_ok_def incrementing_def Let_def)

lemma renderNewSkybox_ok: "cursor_ok s \<Longrightarrow> cursor_ok (fst (renderNewSkybox s))"
  using resetStages_ok[of s] incrementing_ok[of "resetStages s"]
  by (auto simp add: renderNewSkybox_def Let_def errorChecking_ok cursor_ok_def split: option.splits)

lemma renderNewSkybox_no_errors: "cursor_ok s \<Longrightarrow> errors (snd (renderNewSkybox s)) = []"
  using resetStages_ok[of s]
  by (auto simp add: renderNewSkybox_def Let_def errorChecking_ok split: option.splits)

lemma reachable_ok: "reachable s \<Longrightarrow> cursor_ok s"
proof (induction rule: reachable.induct)
  case initial
  then show ?case by (simp add: cursor_ok_def skyboxRenderingStage_def MAX_LIGHTNING_STAGES_def MAX_Y_TILES_def MAX_X_TILES_def)
next
  case (request s)
  then show ?case by (simp add: cursor_ok_def requestNewSkybox_def)
next
  case (frame s)
  then show ?case by (simp add: renderNewSkybox_ok)
qed

text \<open>
  C7. In every state the program can reach, the four cursor components are non-negative
  when \<open>renderNewSkybox\<close> is entered, its error checking block changes nothing, and the
  call logs no error.
\<close>

theorem negative_clamp_never_triggers:
  "reachable s \<Longrightarrow>
     0 \<le> lightning s \<and> 0 \<le> panel s \<and> 0 \<le> y s \<and> 0 \<le> x s \<and>
     errorChecking (resetStages s) = (resetStages s, []) \<and>
     errors (snd (renderNewSkybox s)) = []"
  using reachable_ok[of s] renderNewSkybox_no_errors[of s] errorChecking_ok[OF resetStages_ok, of s]
  by (simp add: cursor_ok_def)

theorem negative_clamp_never_triggers_witness:
  "0 \<le> lightning (fst (renderNewSkybox (requestNewSkybox skyboxRenderingStage))) \<and>
   0 \<le> panel (fst (renderNewSkybox (requestNewSkybox skyboxRenderingStage))) \<and>
   0 \<le> y (fst (renderNewSkybox (requestNewSkybox skyboxRenderingStage))) \<and>
   0 \<le> x (fst (renderNewSkybox (requestNewSkybox skyboxRenderingStage))) \<and>
   x (fst (renderNewSkybox (requestNewSkybox skyboxRenderingStage))) = 1 \<and>
   errors (snd (renderNewSkybox (fst (renderNewSkybox (requestNewSkybox skyboxRenderingStage))))) = []"
  using negative_clamp_never_triggers
    [OF reachable.frame [OF reachable.request [OF reachable.initial]]]
  by (simp add: renderNewSkybox_def requestNewSkybox_def skyboxRenderingStage_def resetStages_def
      errorChecking_def incrementing_def panelToRender_def Let_def
      MAX_LIGHTNING_STAGES_def MAX_Y_TILES_def MAX_X_TILES_def)


section \<open>Properties of \<open>hexToColor\<close>\<close>

lemma digitValue_nat: "\<exists>d::nat. d \<le> 15 \<and> digitValue c = real d"
proof -
  have "digitValue c \<in> real ` {0..15}"
    unfolding digitValue_def by (simp only: if_distrib[of "\<lambda>v. v \<in> _"] ) (auto intro!: image_eqI[where x="numeral _"] image_eqI[where x=0] image_eqI[where x=1])
  then show ?thesis by auto
qed

lemma hexPair_two:
  "hexPair hex 0 c 0 =
     (c + 2, digitValue (charAt hex c) * 16 + digitValue (charAt hex (c + 1)))"
proof -
  have "hexPair hex 0 c 0 = hexPair hex 1 (c + 1) (digitValue (charAt hex c))"
    by (subst hexPair.simps) simp
  also have "\<dots> = hexPair hex 2 (c + 2)
      (digitValue (charAt hex c) * 16 + digitValue (charAt hex (c + 1)))"
    by (subst hexPair.simps) (simp add: eval_nat_numeral)
  also have "\<dots> = (c + 2, digitValue (charAt hex c) * 16 + digitValue (charAt hex (c + 1)))"
    by (subst hexPair.simps) simp
  finally show ?thesis .
qed

lemma hexByte_range: "0 \<le> hexByte hex c \<and> hexByte hex c \<le> 255 / 256"
proof -
  obtain d1 d2 :: nat where d: "d1 \<le> 15" "digitValue (charAt hex c) = real d1"
    "d2 \<le> 15" "digitValue (charAt hex (c + 1)) = real d2"
    using digitValue_nat by metis
  have "real d1 * 16 + real d2 \<le> 255" using d(1,3) by linarith
  then show ?thesis unfolding hexByte_def d by simp
qed

lemma hexComponents_step:
  assumes "rgbIndex < 3"
  shows "hexComponents hex rgbIndex c colorVec =
     hexComponents hex (rgbIndex + 1) (c + 2) (colorVec[rgbIndex := hexByte hex c])"
proof -
  let ?v = "digitValue (charAt hex c) * 16 + digitValue (charAt hex (c + 1))"
  have "0 \<le> ?v / 256 \<and> ?v / 256 \<le> 255 / 256"
    using hexByte_range[of hex c] by (simp only: hexByte_def)
  then have v: "(?v < 0) = False" "(?v > 256) = False" by auto
  have "hexComponents hex rgbIndex c colorVec =
      (let (charIndex1, v0) = hexPair hex 0 c 0;
           v1 = (if v0 < 0 then 0 else v0);
           v2 = (if v1 > 256 then 256 else v1);
           v3 = v2 / 256
       in hexComponents hex (rgbIndex + 1) charIndex1 (colorVec[rgbIndex := v3]))"
    using assms by (subst hexComponents.simps) (simp only: if_True)
  then show ?thesis
    by (simp only: hexPair_two prod.case Let_def v if_False hexByte_def)
qed

lemma hexToColor_eq:
  "hexToColor hex colorVec = colorVec[0 := hexByte hex 1, 1 := hexByte hex 3, 2 := hexByte hex 5]"
proof -
  have e: "hexComponents hex 3 7 xs = xs" for xs
    by (subst hexComponents.simps) simp
  have "hexComponents hex 0 1 colorVec = hexComponents hex 1 3 (colorVec[0 := hexByte hex 1])"
    using hexComponents_step[of 0 hex 1 colorVec] by (simp add: eval_nat_numeral)
  also have "\<dots> = hexComponents hex 2 5 (colorVec[0 := hexByte hex 1, 1 := hexByte hex 3])"
    using hexComponents_step[of 1 hex 3 "colorVec[0 := hexByte hex 1]"]
    by (simp add: eval_nat_numeral)
  also have "\<dots> = hexComponents hex 3 7
      (colorVec[0 := hexByte hex 1, 1 := hexByte hex 3, 2 := hexByte hex 5])"
    using hexComponents_step[of 2 hex 5 "colorVec[0 := hexByte hex 1, 1 := hexByte hex 3]"]
    by (simp add: eval_nat_numeral)
  finally show ?thesis by (simp only: hexToColor_def e)
qed

lemma hexToColor_nth:
  assumes "length colorVec = 3" and "i < 3"
  shows "hexToColor hex colorVec ! i = hexByte hex (2 * i + 1)"
proof -
  from assms(2) consider "i = 0" | "i = 1" | "i = 2" by linarith
  then show ?thesis
    by cases (simp_all add: hexToColor_eq assms(1))
qed

lemma hexByte_ff: "i < 3 \<Longrightarrow> hexByte ''#ffffff'' (2 * i + 1) = 255 / 256"
proof -
  assume "i < 3"
  then consider "i = 0" | "i = 1" | "i = 2" by linarith
  then show ?thesis
    by cases (simp_all add: hexByte_def charAt_def digitValue_def)
qed

lemma digitValue_other: "c \<notin> set ''0123456789abcdef'' \<Longrightarrow> digitValue [c] = 0"
  by (simp add: digitValue_def)

text \<open>
  C10. For every string \<open>hex\<close>, each of the three components \<open>hexToColor\<close> writes lies
  between 0 and 255/256, so below 1; \<open>#ffffff\<close> gives 255/256 in each; a character that is
  not one of 0-9, a-f (an upper-case digit, any other character) and the empty string
  that \<open>charAt\<close> returns beyond the end of \<open>hex\<close> add 0.
\<close>

theorem hexToColor_components:
  assumes "length colorVec = 3" and "i < 3" and "c \<notin> set ''0123456789abcdef''"
  shows "0 \<le> hexToColor hex colorVec ! i \<and> hexToColor hex colorVec ! i \<le> 255 / 256 \<and>
         hexToColor hex colorVec ! i < 1 \<and>
         hexToColor ''#ffffff'' colorVec ! i = 255 / 256 \<and>
         digitValue [c] = 0 \<and> digitValue [] = 0"
proof -
  have "0 \<le> hexByte hex k \<and> hexByte hex k \<le> 255 / 256 \<and> hexByte hex k < 1" for k
    using hexByte_range[of hex k] by simp
  moreover have "digitValue [] = 0" by (simp add: digitValue_def)
  ultimately show ?thesis
    using digitValue_other[OF assms(3)] hexByte_ff[OF assms(2)]
    by (simp only: hexToColor_nth[OF assms(1,2)] simp_thms)
qed

theorem hexToColor_components_witness:
  "hexToColor ''#FF9ag'' [0, 0, 0] ! 1 = 154 / 256 \<and>
   hexToColor ''#FF9ag'' [0, 0, 0] ! 1 < 1 \<and>
   hexToColor ''#ffffff'' [0, 0, 0] ! 1 = 255 / 256 \<and>
   digitValue ''F'' = 0 \<and> digitValue [] = 0"
  using hexToColor_components[of "[0, 0, 0]" 1 "CHR ''F''" "''#FF9ag''"]
  by (simp add: hexToColor_eq hexByte_def charAt_def digitValue_def)


section \<open>Properties of \<open>loadNewNoise\<close>\<close>

lemma store_in: "i < length a \<Longrightarrow> store a i v = a[i := Some v]"
  by (simp add: store_def)

lemma writeTexel_in:
  assumes "i + 3 < length a"
  shows "writeTexel i rnd a =
    (a[i := Some \<lfloor>rnd !! 0 * 256\<rfloor>, i + 1 := Some \<lfloor>rnd !! 1 * 256\<rfloor>,
       i + 2 := Some \<lfloor>rnd !! 2 * 256\<rfloor>, i + 3 := Some 255], sdrop 3 rnd)"
  using assms by (simp add: writeTexel_def store_in Let_def eval_nat_numeral)

lemma noiseLoop_inv:
  assumes "length a = 4 * m" and "t \<le> m" and "rnd = sdrop (3 * t) rnd0"
    and "noiseLoop (4 * t) (4 * m) rnd a = (res, rnd')"
  shows "length res = 4 * m \<and> rnd' = sdrop (3 * m) rnd0 \<and>
         (\<forall>j < 4 * t. res ! j = a ! j) \<and>
         (\<forall>u c. t \<le> u \<and> u < m \<and> c < 3 \<longrightarrow>
            res ! (4 * u + c) = Some \<lfloor>rnd0 !! (3 * u + c) * 256\<rfloor> \<and>
            res ! (4 * u + 3) = Some 255)"
  using assms
proof (induction "m - t" arbitrary: t rnd a)
  case 0
  then have "t = m" by simp
  with 0 show ?case by (subst (asm) noiseLoop.simps) auto
next
  case (Suc d)
  then have lt: "t < m" by simp
  let ?a = "a[4 * t := Some \<lfloor>rnd !! 0 * 256\<rfloor>, 4 * t + 1 := Some \<lfloor>rnd !! 1 * 256\<rfloor>,
       4 * t + 2 := Some \<lfloor>rnd !! 2 * 256\<rfloor>, 4 * t + 3 := Some 255]"
  have w: "writeTexel (4 * t) rnd a = (?a, sdrop 3 rnd)"
    using lt Suc.prems(1) by (intro writeTexel_in) simp
  have s4: "4 * Suc t = 4 * t + 4" by simp
  have c: "4 * t < 4 * m" using lt by simp
  have "noiseLoop (4 * t) (4 * m) rnd a =
      (let (d, rnd1) = writeTexel (4 * t) rnd a in noiseLoop (4 * t + 4) (4 * m) rnd1 d)"
    by (subst noiseLoop.simps) (simp only: c if_True)
  also have "\<dots> = noiseLoop (4 * t + 4) (4 * m) (sdrop 3 rnd) ?a"
    by (simp only: w prod.case Let_def)
  finally have e: "noiseLoop (4 * t + 4) (4 * m) (sdrop 3 rnd) ?a = noiseLoop (4 * t) (4 * m) rnd a"
    by (rule sym)
  have step: "noiseLoop (4 * Suc t) (4 * m) (sdrop 3 rnd) ?a = (res, rnd')"
    unfolding s4 e by (rule Suc.prems(4))
  have s3: "3 * Suc t = 3 * t + 3" by simp
  have r3: "sdrop 3 rnd = sdrop (3 * Suc t) rnd0"
    by (simp only: Suc.prems(3) sdrop_add s3)
  have ih: "length res = 4 * m \<and> rnd' = sdrop (3 * m) rnd0 \<and>
         (\<forall>j < 4 * Suc t. res ! j = ?a ! j) \<and>
         (\<forall>u c. Suc t \<le> u \<and> u < m \<and> c < 3 \<longrightarrow>
            res ! (4 * u + c) = Some \<lfloor>rnd0 !! (3 * u + c) * 256\<rfloor> \<and>
            res ! (4 * u + 3) = Some 255)"
    using Suc.hyps(2) lt Suc.prems(1) 
    by (intro Suc.hyps(1)[OF _ _ _ r3 step]) auto
  have here: "res ! (4 * t + c) = ?a ! (4 * t + c)" if "c < 4" for c
    using ih that by simp
  have rn: "rnd !! c = rnd0 !! (3 * t + c)" for c
    using Suc.prems(3) by (simp add: sdrop_snth add.commute)
  have len: "4 * t + 3 < length a" using lt Suc.prems(1) by simp
  have t0: "res ! (4 * t + 0) = Some \<lfloor>rnd0 !! (3 * t + 0) * 256\<rfloor>"
    using here[of 0] len rn[of 0] by simp
  have t1: "res ! (4 * t + 1) = Some \<lfloor>rnd0 !! (3 * t + 1) * 256\<rfloor>"
    using here[of 1] len rn[of 1] by simp
  have t2: "res ! (4 * t + 2) = Some \<lfloor>rnd0 !! (3 * t + 2) * 256\<rfloor>"
    using here[of 2] len rn[of 2] by simp
  have t3: "res ! (4 * t + 3) = Some 255"
    using here[of 3] len by simp
  have before: "res ! j = a ! j" if "j < 4 * t" for j
  proof -
    have "res ! j = ?a ! j" using ih that by simp
    also have "\<dots> = a ! j" using that by simp
    finally show ?thesis .
  qed
  have cur: "res ! (4 * t + c) = Some \<lfloor>rnd0 !! (3 * t + c) * 256\<rfloor>" if "c < 3" for c
  proof -
    from that consider "c = 0" | "c = 1" | "c = 2" by linarith
    then show ?thesis using t0 t1 t2 by cases simp_all
  qed
  have all: "res ! (4 * u + c) = Some \<lfloor>rnd0 !! (3 * u + c) * 256\<rfloor> \<and>
            res ! (4 * u + 3) = Some 255" if "t \<le> u" "u < m" "c < 3" for u c
  proof (cases "u = t")
    case True
    then show ?thesis using cur[OF that(3)] t3 by simp
  next
    case False
    then have "Suc t \<le> u" using that by simp
    then show ?thesis using ih that by blast
  qed
  show ?case using ih before all by blast
qed


lemma noiseLoop_new:
  assumes "noiseLoop 0 (4 * m) rnd (newArray (4 * m)) = (res, rnd')"
  shows "length res = 4 * m" and "rnd' = sdrop (3 * m) rnd"
    and "u < m \<Longrightarrow> c < 3 \<Longrightarrow> res ! (4 * u + c) = Some \<lfloor>rnd !! (3 * u + c) * 256\<rfloor>"
    and "u < m \<Longrightarrow> res ! (4 * u + 3) = Some 255"
proof -
  have a: "noiseLoop (4 * 0) (4 * m) rnd (newArray (4 * m)) = (res, rnd')"
    using assms by simp
  have i: "length res = 4 * m \<and> rnd' = sdrop (3 * m) rnd \<and>
         (\<forall>j < 4 * 0. res ! j = newArray (4 * m) ! j) \<and>
         (\<forall>u c. 0 \<le> u \<and> u < m \<and> c < 3 \<longrightarrow>
            res ! (4 * u + c) = Some \<lfloor>rnd !! (3 * u + c) * 256\<rfloor> \<and>
            res ! (4 * u + 3) = Some 255)"
    by (rule noiseLoop_inv[OF _ _ _ a]) (simp_all add: newArray_def)
  from i show "length res = 4 * m" and "rnd' = sdrop (3 * m) rnd" by simp_all
  from i show "res ! (4 * u + c) = Some \<lfloor>rnd !! (3 * u + c) * 256\<rfloor>" if "u < m" "c < 3"
    using that by blast
  from i have "res ! (4 * u + 3) = Some 255" if "u < m" "(0::nat) < 3" using that by blast
  then show "u < m \<Longrightarrow> res ! (4 * u + 3) = Some 255" by simp
qed

lemma random_byte:
  assumes "0 \<le> r" and "r < 1"
  shows "0 \<le> \<lfloor>r * 256 :: real\<rfloor> \<and> \<lfloor>r * 256\<rfloor> \<le> 255"
proof -
  have "\<lfloor>r * 256\<rfloor> < 256" using assms(2) by (simp add: floor_less_iff)
  moreover have "0 \<le> \<lfloor>r * 256\<rfloor>" using assms(1) by simp
  ultimately show ?thesis by simp
qed

lemma loadNewNoise_eq:
  obtains res where
    "noiseLoop 0 (4 * (textureDimension * textureDimension)) rnd
       (newArray (4 * (textureDimension * textureDimension))) =
     (res, snd (loadNewNoise noiseBase rnd))"
    "fst (loadNewNoise noiseBase rnd) =
       \<lparr>width = textureDimension, height = textureDimension, pixels = map toUint8 res\<rparr>"
proof -
  obtain res r where l: "noiseLoop 0 (4 * (textureDimension * textureDimension)) rnd
       (newArray (4 * (textureDimension * textureDimension))) = (res, r)"
    by (cases "noiseLoop 0 (4 * (textureDimension * textureDimension)) rnd
       (newArray (4 * (textureDimension * textureDimension)))")
  have m: "textureDimension * textureDimension * 4 = 4 * (textureDimension * textureDimension)"
    by simp
  have "loadNewNoise noiseBase rnd =
     (\<lparr>width = textureDimension, height = textureDimension, pixels = map toUint8 res\<rparr>, r)"
    unfolding loadNewNoise_def m l by simp
  then show ?thesis using that l by simp
qed

lemma loadNewNoise_size:
  "width (fst (loadNewNoise noiseBase rnd)) = textureDimension \<and>
   height (fst (loadNewNoise noiseBase rnd)) = textureDimension \<and>
   length (pixels (fst (loadNewNoise noiseBase rnd))) = textureDimension * textureDimension * 4"
proof -
  let ?m = "textureDimension * textureDimension"
  obtain res where l: "noiseLoop 0 (4 * ?m) rnd (newArray (4 * ?m)) =
     (res, snd (loadNewNoise noiseBase rnd))"
    and f: "fst (loadNewNoise noiseBase rnd) =
       \<lparr>width = textureDimension, height = textureDimension, pixels = map toUint8 res\<rparr>"
    by (rule loadNewNoise_eq)
  show ?thesis using noiseLoop_new(1)[OF l] by (simp add: f)
qed

lemma loadNewNoise_rest:
  "snd (loadNewNoise noiseBase rnd) = sdrop (3 * (textureDimension * textureDimension)) rnd"
proof -
  let ?m = "textureDimension * textureDimension"
  obtain res where l: "noiseLoop 0 (4 * ?m) rnd (newArray (4 * ?m)) =
     (res, snd (loadNewNoise noiseBase rnd))"
    and f: "fst (loadNewNoise noiseBase rnd) =
       \<lparr>width = textureDimension, height = textureDimension, pixels = map toUint8 res\<rparr>"
    by (rule loadNewNoise_eq)
  show ?thesis using noiseLoop_new(2)[OF l] .
qed

lemma loadNewNoise_fresh: "fst (loadNewNoise noiseBase rnd) = fst (loadNewNoise noiseBase' rnd)"
  by (simp add: loadNewNoise_def split_beta)

lemma loadNewNoise_rgb:
  assumes "sset rnd \<subseteq> {0..<1}"
    and "t < textureDimension * textureDimension" and "c < 3"
  shows "pixels (fst (loadNewNoise noiseBase rnd)) ! (4 * t + c) = \<lfloor>rnd !! (3 * t + c) * 256\<rfloor> \<and>
         0 \<le> \<lfloor>rnd !! (3 * t + c) * 256\<rfloor> \<and> \<lfloor>rnd !! (3 * t + c) * 256\<rfloor> \<le> 255"
proof -
  let ?m = "textureDimension * textureDimension"
  obtain res where l: "noiseLoop 0 (4 * ?m) rnd (newArray (4 * ?m)) =
     (res, snd (loadNewNoise noiseBase rnd))"
    and f: "fst (loadNewNoise noiseBase rnd) =
       \<lparr>width = textureDimension, height = textureDimension, pixels = map toUint8 res\<rparr>"
    by (rule loadNewNoise_eq)
  note n = noiseLoop_new[OF l]
  from assms(1) snth_sset[of rnd "3 * t + c"] have "rnd !! (3 * t + c) \<in> {0..<1}"
    by (rule subsetD)
  then have "0 \<le> rnd !! (3 * t + c)" "rnd !! (3 * t + c) < 1" by simp_all
  then have b: "0 \<le> \<lfloor>rnd !! (3 * t + c) * 256\<rfloor> \<and> \<lfloor>rnd !! (3 * t + c) * 256\<rfloor> \<le> 255"
    by (rule random_byte)
  have i: "4 * t + c < length res" using n(1) assms(2,3) by simp
  have "pixels (fst (loadNewNoise noiseBase rnd)) ! (4 * t + c) = \<lfloor>rnd !! (3 * t + c) * 256\<rfloor>"
    using n(3)[OF assms(2,3)] i b by (simp add: f)
  with b show ?thesis by simp
qed

lemma loadNewNoise_alpha:
  assumes "t < textureDimension * textureDimension"
  shows "pixels (fst (loadNewNoise noiseBase rnd)) ! (4 * t + 3) = 255"
proof -
  let ?m = "textureDimension * textureDimension"
  obtain res where l: "noiseLoop 0 (4 * ?m) rnd (newArray (4 * ?m)) =
     (res, snd (loadNewNoise noiseBase rnd))"
    and f: "fst (loadNewNoise noiseBase rnd) =
       \<lparr>width = textureDimension, height = textureDimension, pixels = map toUint8 res\<rparr>"
    by (rule loadNewNoise_eq)
  note n = noiseLoop_new[OF l]
  have i: "4 * t + 3 < length res" using n(1) assms by simp
  show ?thesis using n(4)[OF assms] i by (simp add: f)
qed

text \<open>
  C9, amended. \<open>loadNewNoise\<close> replaces the whole image of the noise texture: the new
  image has textureDimension by textureDimension texels of four bytes, it does not
  depend on the image the texture had, and in texel t the red, green and blue bytes are
  the floor of 256 times the random numbers 3t, 3t + 1 and 3t + 2 of the call (each byte
  its own draw, a value from 0 to 255), while the alpha byte is the constant 255. The
  call consumes three random numbers for each texel.
\<close>

theorem loadNewNoise_replaces_texture:
  assumes "sset rnd \<subseteq> {0..<1}"
    and "t < textureDimension * textureDimension" and "c < 3"
  shows "width (fst (loadNewNoise noiseBase rnd)) = textureDimension \<and>
         height (fst (loadNewNoise noiseBase rnd)) = textureDimension \<and>
         length (pixels (fst (loadNewNoise noiseBase rnd))) =
           textureDimension * textureDimension * 4 \<and>
         pixels (fst (loadNewNoise noiseBase rnd)) ! (4 * t + c) = \<lfloor>rnd !! (3 * t + c) * 256\<rfloor> \<and>
         0 \<le> pixels (fst (loadNewNoise noiseBase rnd)) ! (4 * t + c) \<and>
         pixels (fst (loadNewNoise noiseBase rnd)) ! (4 * t + c) \<le> 255 \<and>
         pixels (fst (loadNewNoise noiseBase rnd)) ! (4 * t + 3) = 255 \<and>
         fst (loadNewNoise noiseBase rnd) = fst (loadNewNoise noiseBase' rnd) \<and>
         snd (loadNewNoise noiseBase rnd) = sdrop (3 * (textureDimension * textureDimension)) rnd"
  using loadNewNoise_size[of noiseBase rnd] loadNewNoise_rgb[OF assms, of noiseBase]
    loadNewNoise_alpha[OF assms(2), of noiseBase rnd] loadNewNoise_fresh[of noiseBase rnd noiseBase']
    loadNewNoise_rest[of noiseBase rnd]
  by simp

theorem loadNewNoise_replaces_texture_witness:
  "pixels (fst (loadNewNoise \<lparr>width = 0, height = 0, pixels = []\<rparr> (sconst (1/2)))) ! 5 = 128 \<and>
   pixels (fst (loadNewNoise \<lparr>width = 0, height = 0, pixels = []\<rparr> (sconst (1/2)))) ! 7 = 255 \<and>
   length (pixels (fst (loadNewNoise \<lparr>width = 0, height = 0, pixels = []\<rparr> (sconst (1/2))))) = 16384"
  using loadNewNoise_replaces_texture
    [of "sconst (1/2)" 1 1 "\<lparr>width = 0, height = 0, pixels = []\<rparr>"]
  by (simp add: textureDimension_def)

text \<open>
  C9 as the specification states it, with random bytes in every channel, fails on the
  alpha channel: whatever the random source returns (0 on every call, or 1/2 on every
  call), the fourth byte of the first texel is 255, while its first byte follows the
  source.
\<close>

theorem loadNewNoise_alpha_counterexample:
  "pixels (fst (loadNewNoise \<lparr>width = 0, height = 0, pixels = []\<rparr> (sconst 0))) ! 0 = 0 \<and>
   pixels (fst (loadNewNoise \<lparr>width = 0, height = 0, pixels = []\<rparr> (sconst (1/2)))) ! 0 = 128 \<and>
   pixels (fst (loadNewNoise \<lparr>width = 0, height = 0, pixels = []\<rparr> (sconst 0))) ! 3 = 255 \<and>
   pixels (fst (loadNewNoise \<lparr>width = 0, height = 0, pixels = []\<rparr> (sconst 0))) ! 3 \<noteq>
     \<lfloor>shd (sconst (0::real)) * 256\<rfloor> \<and>
   pixels (fst (loadNewNoise \<lparr>width = 0, height = 0, pixels = []\<rparr> (sconst (1/2)))) ! 3 = 255"
proof -
  have 0: "(0::nat) < textureDimension * textureDimension" by (simp add: textureDimension_def)
  have a: "sset (sconst (0::real)) \<subseteq> {0..<1}" "sset (sconst (1/2::real)) \<subseteq> {0..<1}" by simp_all
  show ?thesis
    using loadNewNoise_rgb[OF a(1) 0, of 0 "\<lparr>width = 0, height = 0, pixels = []\<rparr>"]
      loadNewNoise_rgb[OF a(2) 0, of 0 "\<lparr>width = 0, height = 0, pixels = []\<rparr>"]
      loadNewNoise_alpha[OF 0, of "\<lparr>width = 0, height = 0, pixels = []\<rparr>" "sconst 0"]
      loadNewNoise_alpha[OF 0, of "\<lparr>width = 0, height = 0, pixels = []\<rparr>" "sconst (1/2)"]
    by simp
qed


section \<open>Properties of the shader\<close>






subsection \<open>The density falloff\<close>

lemma vlength_vscale: "vlength (vscale rd t) = \<bar>t\<bar> * vlength rd"
proof (cases rd)
  case (fields a b c)
  have "a * t * (a * t) + b * t * (b * t) + c * t * (c * t) = t\<^sup>2 * (a * a + b * b + c * c)"
    by (simp add: power2_eq_square algebra_simps)
  then show ?thesis
    by (simp add: fields real_sqrt_mult)
qed

lemma vadd_origin: "vadd (0, 0, 0) v = v"
  by (cases v) simp

lemma sampleLayeredDensity_sample:
  "u_noise1OutputSettings U = (0, 1 / 2) \<Longrightarrow> u_noise2OutputSettings U = (0, 0) \<Longrightarrow>
   u_noise3OutputSettings U = (0, 0) \<Longrightarrow> u_noise4OutputSettings U = (0, 0) \<Longrightarrow>
   u_noise5OutputSettings U = (0, 0) \<Longrightarrow> sampleLayeredDensity U pos = 1 / 2"
  by (simp add: sampleLayeredDensity_def sampleDensity_def clamp_def)

lemma falloff_on_ray:
  assumes "u_stepSettings U = (tmin, tdensityFalloff, tmax, stepSize)"
    and "vlength rd = 1"
  shows "falloffDensity U (0, 0, 0) rd (vadd (0, 0, 0) (vscale rd t)) =
           (if \<bar>t\<bar> < \<bar>tdensityFalloff\<bar>
            then mix 0 (sampleLayeredDensity U (vadd (0, 0, 0) (vscale rd t)))
                   ((\<bar>t\<bar> - \<bar>tmin\<bar>) / (\<bar>tdensityFalloff\<bar> - \<bar>tmin\<bar>))
            else sampleLayeredDensity U (vadd (0, 0, 0) (vscale rd t)))"
  using assms
  by (simp add: falloffDensity_def Let_def densityFalloffStart_def densityFalloffEnd_def
      densityFalloffSize_def vadd_origin vlength_vscale)

lemma sampleUniforms_density:
  "sampleLayeredDensity (sampleUniforms\<lparr>u_stepSettings := st\<rparr>) pos = 1 / 2"
  by (rule sampleLayeredDensity_sample) (simp_all add: sampleUniforms_def)

text \<open>
  C6, amended. With the ray origin at the centre (0, 0, 0), a direction of length 1 and
  0 \<le> tmin < tdensityFalloff, the density of the sample at distance t \<ge> 0 is the
  layered density times 1 at t = tdensityFalloff, times 0 at t = tmin, times
  (t - tmin) / (tdensityFalloff - tmin) for every t below tdensityFalloff, and times 1
  for every t at or beyond tdensityFalloff, where the falloff branch is not taken.
\<close>

theorem falloff_boundary:
  assumes "u_stepSettings U = (tmin, tdensityFalloff, tmax, stepSize)"
    and "ro = (0, 0, 0)" and "vlength rd = 1"
    and "0 \<le> tmin" and "tmin < tdensityFalloff" and "0 \<le> t"
  shows "falloffDensity U ro rd (vadd ro (vscale rd tdensityFalloff)) =
           sampleLayeredDensity U (vadd ro (vscale rd tdensityFalloff)) * 1 \<and>
         falloffDensity U ro rd (vadd ro (vscale rd tmin)) =
           sampleLayeredDensity U (vadd ro (vscale rd tmin)) * 0 \<and>
         falloffDensity U ro rd (vadd ro (vscale rd t)) =
           sampleLayeredDensity U (vadd ro (vscale rd t)) *
             (if t < tdensityFalloff then (t - tmin) / (tdensityFalloff - tmin) else 1)"
proof -
  note f = falloff_on_ray[OF assms(1,3)]
  have "(tdensityFalloff - tmin) / (tdensityFalloff - tmin) = 1" using assms(5) by simp
  then show ?thesis
    unfolding assms(2) f using assms(4,5,6) by (simp add: mix_def)
qed

theorem falloff_boundary_witness:
  "falloffDensity sampleUniforms (0, 0, 0) (0, 0, 1) (0, 0, 2) = 1 / 2 \<and>
   falloffDensity sampleUniforms (0, 0, 0) (0, 0, 1) (0, 0, 1) = 0 \<and>
   falloffDensity sampleUniforms (0, 0, 0) (0, 0, 1) (0, 0, 3 / 2) = 1 / 4 \<and>
   falloffDensity sampleUniforms (0, 0, 0) (0, 0, 1) (0, 0, 3) = 1 / 2"
proof -
  have u: "sampleUniforms\<lparr>u_stepSettings := (1, 2, 10, 1 / 10)\<rparr> = sampleUniforms"
    by (simp add: sampleUniforms_def)
  have st: "u_stepSettings sampleUniforms = (1, 2, 10, 1 / 10)"
    by (simp add: sampleUniforms_def)
  have d: "sampleLayeredDensity sampleUniforms pos = 1 / 2" for pos
    using sampleUniforms_density[of "(1, 2, 10, 1 / 10)" pos] by (simp only: u)
  have l: "vlength (0, 0, 1) = 1" by simp
  show ?thesis
    using falloff_boundary[OF st refl l, of "3 / 2"] falloff_boundary[OF st refl l, of 3]
    by (simp add: d)
qed

text \<open>
  C6 as the specification states it, for every tMin below the falloff distance, fails
  for a negative tMin: the shader compares distances from the origin, so with tmin = - 3
  and tdensityFalloff = 2 the sample at t = tmin is at distance 3, beyond the falloff
  distance, and keeps its whole density 1/2 instead of losing it.
\<close>

theorem falloff_negative_tmin_counterexample:
  "vlength (0, 0, 1) = 1 \<and> (- 3 :: real) < 2 \<and>
   vadd (0, 0, 0) (vscale (0, 0, 1) (- 3)) = (0, 0, - 3) \<and>
   sampleLayeredDensity (sampleUniforms\<lparr>u_stepSettings := (- 3, 2, 10, 1 / 10)\<rparr>) (0, 0, - 3) = 1 / 2 \<and>
   falloffDensity (sampleUniforms\<lparr>u_stepSettings := (- 3, 2, 10, 1 / 10)\<rparr>) (0, 0, 0) (0, 0, 1)
     (0, 0, - 3) = 1 / 2 \<and>
   falloffDensity (sampleUniforms\<lparr>u_stepSettings := (- 3, 2, 10, 1 / 10)\<rparr>) (0, 0, 0) (0, 0, 1)
     (0, 0, - 3) \<noteq>
   sampleLayeredDensity (sampleUniforms\<lparr>u_stepSettings := (- 3, 2, 10, 1 / 10)\<rparr>) (0, 0, - 3) * 0"
proof -
  have st: "u_stepSettings (sampleUniforms\<lparr>u_stepSettings := (- 3, 2, 10, 1 / 10)\<rparr>) =
      (- 3, 2, 10, 1 / 10)"
    by simp
  have l: "vlength (0, 0, 1) = 1" by simp
  show ?thesis
    using falloff_on_ray[OF st l, of "- 3"]
    by (simp add: sampleUniforms_density)
qed


section \<open>Properties of the shader over any arithmetic\<close>

subsection \<open>Over the real numbers it is the shader defined before\<close>

lemma vec_ops_real [simp]:
  "vadd_ops real_glsl a b = vadd a b"
  "vsub_ops real_glsl a b = vsub a b"
  "vscale_ops real_glsl a k = vscale a k"
  "sscale_ops real_glsl k a = vscale a k"
  "vdivs_ops real_glsl a k = vdivs a k"
  "vsubs_ops real_glsl a k = vsub a (k, k, k)"
  "vfloor_ops real_glsl a = vfloor a"
  "vfract_ops real_glsl a = vfract a"
  "vmix_ops real_glsl a b k = vmix a b k"
  by (cases a; cases b; simp add: real_glsl_def)+

lemma vec4_ops_real [simp]: "xyz_ops c = xyz c" "vw_ops c = vw c"
  by (cases c; simp)+

lemma wrap_ops_real [simp]:
  "wrapX_ops real_glsl d (a1, a2, a3) = (wrapIndex d a1, a2, a3)"
  "wrapY_ops real_glsl d (a1, a2, a3) = (a1, wrapIndex d a2, a3)"
  "wrapZ_ops real_glsl d (a1, a2, a3) = (a1, a2, wrapIndex d a3)"
  by (simp_all add: real_glsl_def wrapIndex_def)

lemma vol3D_ops_real [simp]: "vol3D_ops real_glsl sampler c td rl = vol3D sampler c td rl"
  by (cases c) (simp add: real_glsl_def)

lemma smooth5_ops_real [simp]: "smooth5_ops real_glsl f = smooth5 f"
  by (simp add: smooth5_ops_def smooth5_def real_glsl_def)

lemma lit_real [simp]: "f_lit real_glsl r = r" "f_normalize real_glsl = normalize"
  "f_dot real_glsl = dot" "f_mix real_glsl = mix" "f_clamp real_glsl = clamp"
  "f_length real_glsl = vlength" "f_exp real_glsl = exp"
  "f_add real_glsl = (+)" "f_sub real_glsl = (-)" "f_mul real_glsl = (*)" "f_div real_glsl = (/)"
  "f_lt real_glsl a b = (a < b)" "f_gt real_glsl a b = (a > b)" "f_ge real_glsl a b = (a \<ge> b)"
  by (simp_all add: real_glsl_def)

lemma corner_ops_real [simp]: "corner_ops real_glsl U i stu_f offs = corner U i stu_f offs"
  by (simp add: corner_ops_def corner_def)

lemma noise3D_ops_real [simp]: "noise3D_ops real_glsl U p = noise3D U p"
  by (cases p)
    (simp add: noise3D_ops_def noise3D_def Let_def split: prod.splits
      del: wrapX_ops.simps wrapY_ops.simps wrapZ_ops.simps)

lemma wrapVolumeCoords_ops_real [simp]: "wrapVolumeCoords_ops real_glsl c = wrapVolumeCoords c"
  by (cases c) (simp add: real_glsl_def cong: if_cong)

lemma sampleLayeredDensity_ops_real [simp]:
  "sampleLayeredDensity_ops real_glsl U p = sampleLayeredDensity U p"
  by (simp add: sampleLayeredDensity_ops_def sampleLayeredDensity_def sampleDensity_ops_def
      sampleDensity_def)

lemma falloffDensity_ops_real [simp]:
  "falloffDensity_ops real_glsl U ro rd pos = falloffDensity U ro rd pos"
  "densityFalloffEnd_ops real_glsl U ro rd = densityFalloffEnd U ro rd"
  by (simp_all add: falloffDensity_ops_def falloffDensity_def densityFalloffStart_ops_def
      densityFalloffStart_def densityFalloffEnd_ops_def densityFalloffEnd_def
      densityFalloffSize_ops_def densityFalloffSize_def cong: if_cong)

lemma sunLoop_ops_real:
  "sunLoop_ops real_glsl U ro rd sunDir currentPos j tsun d =
     sunLoop U ro rd sunDir currentPos j tsun d"
proof (induction "50 - j" arbitrary: j tsun d)
  case 0
  then have "\<not> j < 50" by simp
  then show ?case by (subst sunLoop_ops.simps, subst sunLoop.simps) simp
next
  case (Suc n)
  then have lt: "j < 50" by simp
  have n: "n = 50 - Suc j" using Suc.hyps(2) by simp
  note ih = Suc.hyps(1)[OF n]
  show ?case
    using lt by (subst sunLoop_ops.simps, subst sunLoop.simps) (simp add: Let_def ih cong: if_cong)
qed

lemma composite_ops_real:
  "composite_ops real_glsl U ro rd sunDir skyColor currentPos t density c =
     composite U ro rd sunDir skyColor currentPos t density c"
  by (simp add: composite_ops_def composite_def sunLoop_ops_real Let_def split: prod.splits)

lemma marchLoop_ops_real:
  "marchLoop_ops real_glsl U ro rd sunDir skyColor i t c =
     marchLoop U ro rd sunDir skyColor i t c"
proof (induction "200 - i" arbitrary: i t c)
  case 0
  then have "\<not> i < 200" by simp
  then show ?case by (subst marchLoop_ops.simps, subst marchLoop.simps) simp
next
  case (Suc n)
  then have lt: "i < 200" by simp
  have n: "n = 200 - Suc i" using Suc.hyps(2) by simp
  note ih = Suc.hyps(1)[OF n]
  show ?case
    using lt
    by (subst marchLoop_ops.simps, subst marchLoop.simps)
      (simp add: Let_def ih composite_ops_real cong: if_cong)
qed

lemma raymarchingRounds_ops_real:
  "raymarchingRounds_ops real_glsl U ro rd sunDir skyColor =
     raymarchingRounds U ro rd sunDir skyColor"
  by (simp add: raymarchingRounds_ops_def raymarchingRounds_def marchLoop_ops_real
      split: prod.splits)


subsection \<open>With every uniform NaN the march makes all its rounds and returns no colour\<close>

lemma x_NaN [simp]:
  "x_add a NaN = NaN" "x_add NaN a = NaN" "x_mul a NaN = NaN" "x_mul NaN a = NaN"
  "x_lt a NaN = False" "x_lt NaN a = False" "x_sub a NaN = NaN"
  by (cases a; simp add: x_sub_def)+

lemma x_length_NaN [simp]: "x_length (NaN, NaN, NaN) = NaN"
  by (simp add: x_length_def)

lemma nan_position:
  "vadd_ops xreal_glsl ro (vscale_ops xreal_glsl rd NaN) = (NaN, NaN, NaN)"
  by (cases ro; cases rd) (simp add: xreal_glsl_def)

lemma nan_density: "sampleLayeredDensity_ops xreal_glsl nanUniforms pos = NaN"
  by (simp add: sampleLayeredDensity_ops_def sampleDensity_ops_def nanUniforms_def
      xreal_glsl_def x_min_def x_max_def)

lemma nan_falloff: "falloffDensity_ops xreal_glsl nanUniforms ro rd (NaN, NaN, NaN) = NaN"
proof -
  have "f_length xreal_glsl = x_length" "f_lt xreal_glsl = x_lt"
    by (simp_all add: xreal_glsl_def)
  then show ?thesis
    by (simp add: falloffDensity_ops_def Let_def nan_density)
qed

lemma nan_march:
  assumes "i \<le> 200"
  shows "marchLoop_ops xreal_glsl nanUniforms ro rd sunDir skyColor i NaN
           (Finite 0, Finite 0, Finite 0, Finite 0) =
         ((Finite 0, Finite 0, Finite 0, Finite 0), 200)"
  using assms
proof (induction "200 - i" arbitrary: i)
  case 0
  then have "i = 200" by simp
  then show ?case by (subst marchLoop_ops.simps) simp
next
  case (Suc n)
  then have lt: "i < 200" by simp
  have n: "n = 200 - Suc i" using Suc.hyps(2) by simp
  have le: "Suc i \<le> 200" using lt by simp
  note ih = Suc.hyps(1)[OF n le]
  have f: "falloffDensity_ops xreal_glsl nanUniforms ro rd
      (vadd_ops xreal_glsl ro (vscale_ops xreal_glsl rd NaN)) = NaN"
    by (simp only: nan_position nan_falloff)
  have g: "f_gt xreal_glsl NaN b = False" "f_ge xreal_glsl (Finite 0) (Finite 1) = False"
    "f_add xreal_glsl NaN b = NaN" "f_lit xreal_glsl r = Finite r"
    "u_stepSettings nanUniforms = (NaN, NaN, NaN, NaN)" for b r
    by (simp_all add: xreal_glsl_def x_ge_def nanUniforms_def)
  show ?case
    using lt by (subst marchLoop_ops.simps) (simp add: Let_def f g ih)
qed

lemma raymarching_nan:
  "raymarchingRounds_ops xreal_glsl nanUniforms ro rd sunDir skyColor =
     ((Finite 0, Finite 0, Finite 0, Finite 0), 200)"
  using nan_march[of 0 ro rd sunDir skyColor]
  by (simp add: raymarchingRounds_ops_def nanUniforms_def xreal_glsl_def)


subsection \<open>The loops are bounded by their counters\<close>

lemma sunLoop_ops_step:
  assumes "j < 50"
  obtains d1 tsun1 where
    "sunLoop_ops G U ro rd sunDir currentPos j tsun d =
       (if f_ge G d1 (f_lit G 1) then (f_lit G 1, j + 1)
        else if f_gt G tsun1 (fst (u_sunStepSettings U)) then (d1, j + 1)
        else sunLoop_ops G U ro rd sunDir currentPos (j + 1) tsun1 d1)"
proof -
  define newPos where
    "newPos = vadd_ops G currentPos (vscale_ops G (sscale_ops G (f_lit G (- 1)) sunDir) tsun)"
  define d1 where "d1 = (if f_ge G (f_length G newPos) (densityFalloffEnd_ops G U ro rd)
      then f_clamp G (f_add G d (falloffDensity_ops G U ro rd newPos)) (f_lit G 0) (f_lit G 1)
      else d)"
  define tsun1 where "tsun1 = f_add G tsun (snd (u_sunStepSettings U))"
  have "sunLoop_ops G U ro rd sunDir currentPos j tsun d =
       (if f_ge G d1 (f_lit G 1) then (f_lit G 1, j + 1)
        else if f_gt G tsun1 (fst (u_sunStepSettings U)) then (d1, j + 1)
        else sunLoop_ops G U ro rd sunDir currentPos (j + 1) tsun1 d1)"
    using assms
    by (subst sunLoop_ops.simps) (simp only: if_True Let_def newPos_def d1_def tsun1_def)
  then show ?thesis by (rule that)
qed

lemma sunLoop_ops_rounds:
  "j \<le> 50 \<Longrightarrow> j \<le> snd (sunLoop_ops G U ro rd sunDir currentPos j tsun d) \<and>
     snd (sunLoop_ops G U ro rd sunDir currentPos j tsun d) \<le> 50"
proof (induction "50 - j" arbitrary: j tsun d)
  case 0
  then have "\<not> j < 50" by simp
  then have "sunLoop_ops G U ro rd sunDir currentPos j tsun d = (d, j)"
    by (subst sunLoop_ops.simps) simp
  with 0 show ?case by simp
next
  case (Suc n)
  then have lt: "j < 50" by simp
  have n: "n = 50 - (j + 1)" using Suc.hyps(2) by simp
  have le: "j + 1 \<le> 50" using lt by simp
  obtain d1 tsun1 where u: "sunLoop_ops G U ro rd sunDir currentPos j tsun d =
       (if f_ge G d1 (f_lit G 1) then (f_lit G 1, j + 1)
        else if f_gt G tsun1 (fst (u_sunStepSettings U)) then (d1, j + 1)
        else sunLoop_ops G U ro rd sunDir currentPos (j + 1) tsun1 d1)"
    by (rule sunLoop_ops_step[OF lt, of G U ro rd sunDir currentPos tsun d])
  have ih: "j + 1 \<le> snd (sunLoop_ops G U ro rd sunDir currentPos (j + 1) tsun1 d1) \<and>
     snd (sunLoop_ops G U ro rd sunDir currentPos (j + 1) tsun1 d1) \<le> 50"
    by (rule Suc.hyps(1)[OF n le])
  show ?case unfolding u using ih le by auto
qed

lemma marchLoop_ops_step:
  assumes "i < 200"
  obtains c1 t1 where
    "marchLoop_ops G U ro rd sunDir skyColor i t c =
      (if f_ge G (vw_ops c1) (f_lit G 1)
       then (case c1 of (c1, c2, c3, c4) \<Rightarrow> ((c1, c2, c3, f_lit G 1), i + 1))
       else if f_gt G t1 (tmax_ops U) then (c1, i + 1)
       else marchLoop_ops G U ro rd sunDir skyColor (i + 1) t1 c1)"
    and "t1 = f_add G t (vw_ops (u_stepSettings U))"
proof -
  define currentPos where "currentPos = vadd_ops G ro (vscale_ops G rd t)"
  define density where "density = falloffDensity_ops G U ro rd currentPos"
  define c1 where "c1 = (if f_gt G density (f_lit G 0.01)
      then composite_ops G U ro rd sunDir skyColor currentPos t density c else c)"
  define t1 where "t1 = f_add G t (vw_ops (u_stepSettings U))"
  have 1: "marchLoop_ops G U ro rd sunDir skyColor i t c =
      (if f_ge G (vw_ops c1) (f_lit G 1)
       then (case c1 of (c1, c2, c3, c4) \<Rightarrow> ((c1, c2, c3, f_lit G 1), i + 1))
       else if f_gt G t1 (tmax_ops U) then (c1, i + 1)
       else marchLoop_ops G U ro rd sunDir skyColor (i + 1) t1 c1)"
    using assms
    by (subst marchLoop_ops.simps)
      (simp only: if_True Let_def currentPos_def density_def c1_def t1_def tmax_ops_def)
  show ?thesis using 1 t1_def by (rule that)
qed

lemma marchLoop_ops_rounds:
  "i \<le> 200 \<Longrightarrow> i \<le> snd (marchLoop_ops G U ro rd sunDir skyColor i t c) \<and>
     snd (marchLoop_ops G U ro rd sunDir skyColor i t c) \<le> 200"
proof (induction "200 - i" arbitrary: i t c)
  case 0
  then have "\<not> i < 200" by simp
  then have "marchLoop_ops G U ro rd sunDir skyColor i t c = (c, i)"
    by (subst marchLoop_ops.simps) simp
  with 0 show ?case by simp
next
  case (Suc n)
  then have lt: "i < 200" by simp
  have n: "n = 200 - (i + 1)" using Suc.hyps(2) by simp
  have le: "i + 1 \<le> 200" using lt by simp
  obtain c1 t1 where u: "marchLoop_ops G U ro rd sunDir skyColor i t c =
      (if f_ge G (vw_ops c1) (f_lit G 1)
       then (case c1 of (c1, c2, c3, c4) \<Rightarrow> ((c1, c2, c3, f_lit G 1), i + 1))
       else if f_gt G t1 (tmax_ops U) then (c1, i + 1)
       else marchLoop_ops G U ro rd sunDir skyColor (i + 1) t1 c1)"
    and "t1 = f_add G t (vw_ops (u_stepSettings U))"
    by (rule marchLoop_ops_step[OF lt, of G U ro rd sunDir skyColor t c])
  have ih: "i + 1 \<le> snd (marchLoop_ops G U ro rd sunDir skyColor (i + 1) t1 c1) \<and>
     snd (marchLoop_ops G U ro rd sunDir skyColor (i + 1) t1 c1) \<le> 200"
    by (rule Suc.hyps(1)[OF n le])
  show ?case unfolding u using ih le by (cases c1) auto
qed

text \<open>
  C5. \<open>raymarching\<close> returns for all settings, ray origins and directions, whatever the
  numbers are and whatever the operators, comparisons and built-in functions compute
  on them: rounded results, infinities, NaN with its false comparisons, a tmin above
  tmax, a step size that is zero or negative. Both loops are recursions on their
  integer counters alone: the primary loop makes at least one and at most 200 rounds
  and a loop towards the sun at most 50. When \<open>t > tmax\<close> is true after the first step,
  as for a tmin above tmax with a step that is not negative, the primary loop makes
  exactly one round.
\<close>

theorem raymarching_terminates:
  "1 \<le> snd (raymarchingRounds_ops G U ro rd sunDir skyColor) \<and>
   snd (raymarchingRounds_ops G U ro rd sunDir skyColor) \<le> 200 \<and>
   snd (sunLoop_ops G U ro rd sunDir currentPos 0 tsun densityToSun) \<le> 50 \<and>
   ((case u_stepSettings U of (tmin, tdensityFalloff, tmax, stepSize) \<Rightarrow>
       f_gt G (f_add G tmin stepSize) tmax) \<longrightarrow>
    snd (raymarchingRounds_ops G U ro rd sunDir skyColor) = 1)"
proof -
  obtain tmin tdensityFalloff tmax stepSize
    where s: "u_stepSettings U = (tmin, tdensityFalloff, tmax, stepSize)"
    by (cases "u_stepSettings U")
  let ?c0 = "(f_lit G 0, f_lit G 0, f_lit G 0, f_lit G 0)"
  have r: "raymarchingRounds_ops G U ro rd sunDir skyColor =
      marchLoop_ops G U ro rd sunDir skyColor 0 tmin ?c0"
    by (simp add: raymarchingRounds_ops_def s)
  obtain c1 t1 where u: "marchLoop_ops G U ro rd sunDir skyColor 0 tmin ?c0 =
      (if f_ge G (vw_ops c1) (f_lit G 1)
       then (case c1 of (c1, c2, c3, c4) \<Rightarrow> ((c1, c2, c3, f_lit G 1), 0 + 1))
       else if f_gt G t1 (tmax_ops U) then (c1, 0 + 1)
       else marchLoop_ops G U ro rd sunDir skyColor (0 + 1) t1 c1)"
    and t1: "t1 = f_add G tmin (vw_ops (u_stepSettings U))"
    by (rule marchLoop_ops_step[of 0 G U ro rd sunDir skyColor tmin ?c0]) simp
  have lo: "1 \<le> snd (marchLoop_ops G U ro rd sunDir skyColor 0 tmin ?c0)"
    unfolding u
    using marchLoop_ops_rounds[of "0 + 1" G U ro rd sunDir skyColor t1 c1] by (cases c1) auto
  have hi: "snd (marchLoop_ops G U ro rd sunDir skyColor 0 tmin ?c0) \<le> 200"
    using marchLoop_ops_rounds[of 0] by simp
  have sun: "snd (sunLoop_ops G U ro rd sunDir currentPos 0 tsun densityToSun) \<le> 50"
    using sunLoop_ops_rounds[of 0] by simp
  have one: "snd (marchLoop_ops G U ro rd sunDir skyColor 0 tmin ?c0) = 1"
    if "f_gt G (f_add G tmin stepSize) tmax"
  proof -
    have "f_gt G t1 (tmax_ops U)" using that by (simp add: t1 s tmax_ops_def)
    then show ?thesis unfolding u by (cases c1) simp
  qed
  show ?thesis unfolding r using lo hi sun one by (simp add: s)
qed

theorem raymarching_terminates_witness:
  "snd (raymarchingRounds_ops xreal_glsl
          (nanUniforms\<lparr>u_stepSettings := (PosInf, NaN, Finite 10, Finite (1 / 10))\<rparr>)
          (Finite 0, Finite 0, Finite 0) (Finite 0, Finite 0, Finite 1)
          (NaN, PosInf, NegInf) (NaN, NaN, NaN)) = 1 \<and>
   raymarchingRounds_ops xreal_glsl nanUniforms
          (NaN, NaN, NaN) (NaN, NaN, NaN) (NaN, NaN, NaN) (NaN, NaN, NaN) =
     ((Finite 0, Finite 0, Finite 0, Finite 0), 200) \<and>
   snd (sunLoop_ops xreal_glsl nanUniforms
          (NaN, NaN, NaN) (NaN, NaN, NaN) (NaN, NaN, NaN) (NaN, NaN, NaN) 0 PosInf NaN) \<le> 50 \<and>
   snd (raymarchingRounds sampleUniforms (0, 0, 0) (0, 0, 1) (0, - 1, 0) (0, 0, 1)) \<le> 200"
  using raymarching_terminates
    [of xreal_glsl "nanUniforms\<lparr>u_stepSettings := (PosInf, NaN, Finite 10, Finite (1 / 10))\<rparr>"
        "(Finite 0, Finite 0, Finite 0)" "(Finite 0, Finite 0, Finite 1)"
        "(NaN, PosInf, NegInf)" "(NaN, NaN, NaN)"]
    raymarching_terminates
    [of xreal_glsl nanUniforms "(NaN, NaN, NaN)" "(NaN, NaN, NaN)" "(NaN, NaN, NaN)"
        "(NaN, NaN, NaN)" "(NaN, NaN, NaN)" PosInf NaN]
    raymarching_terminates
    [of real_glsl sampleUniforms "(0, 0, 0)" "(0, 0, 1)" "(0, - 1, 0)" "(0, 0, 1)"]
    raymarching_nan[of "(NaN, NaN, NaN)" "(NaN, NaN, NaN)" "(NaN, NaN, NaN)" "(NaN, NaN, NaN)"]
  by (simp add: xreal_glsl_def raymarchingRounds_ops_real)

end
